theory Spec2Isabelle
  imports Complex_Main "HOL-Library.Word"
begin

section \<open>JavaScript values\<close>

subsection \<open>Numbers\<close>

text \<open>
  A JavaScript number is a binary64 value: NaN, one of the two infinities, or a finite
  value, kept as the real number it denotes (the sign of zero is not represented).
\<close>

datatype jsnum = NaN | PInf | NInf | Fin real

text \<open>
  \<open>fl x\<close> is the number nearest to the real \<open>x\<close>, as every arithmetic operation and
  every numeric literal produces it: round to nearest, ties to even, with 53 significant
  bits, gradual underflow below \<open>2 ^ - 1022\<close> and overflow to infinity. \<open>up\<close> and \<open>down\<close>
  find the exponent: they scale a positive \<open>x\<close> into \<open>[2 ^ 52, 2 ^ 53)\<close>, and \<open>down\<close> stops at
  the exponent of the subnormal numbers; \<open>rne\<close> rounds to the nearest integer, ties to
  even.
\<close>

function up :: "real \<Rightarrow> int \<Rightarrow> real \<times> int" where
  "up x e = (if 9007199254740992 \<le> x then up (x / 2) (e + 1) else (x, e))"
  by pat_completeness auto
termination
proof (relation "measure (\<lambda>(x, e). nat \<lfloor>x\<rfloor>)")
  show "wf (measure (\<lambda>(x, e). nat \<lfloor>x\<rfloor>))" by simp
next
  fix x :: real and e :: int
  assume big: "9007199254740992 \<le> x"
  then have "x / 2 \<le> x - 1" by simp
  then have "\<lfloor>x / 2\<rfloor> \<le> \<lfloor>x - 1\<rfloor>" by (rule floor_mono)
  then have "\<lfloor>x / 2\<rfloor> < \<lfloor>x\<rfloor>" by simp
  moreover from big have "0 < \<lfloor>x\<rfloor>" by linarith
  ultimately show "((x / 2, e + 1), (x, e)) \<in> measure (\<lambda>(x, e). nat \<lfloor>x\<rfloor>)"
    by simp
qed

function down :: "real \<Rightarrow> int \<Rightarrow> real \<times> int" where
  "down x e = (if x < 4503599627370496 \<and> - 1074 < e then down (x * 2) (e - 1) else (x, e))"
  by pat_completeness auto
termination
  by (relation "measure (\<lambda>(x, e). nat (e + 1074))") auto

declare up.simps [simp del] down.simps [simp del]

definition rne :: "real \<Rightarrow> int" where
  "rne y =
     (let f = \<lfloor>y\<rfloor>; r = y - of_int f
      in if r < 1 / 2 then f else if 1 / 2 < r then f + 1 else if even f then f else f + 1)"

definition scale2 :: "int \<Rightarrow> int \<Rightarrow> real" where
  "scale2 m e = (if 0 \<le> e then of_int m * 2 ^ nat e else of_int m / 2 ^ nat (- e))"

definition fl :: "real \<Rightarrow> jsnum" where
  "fl x =
     (if x = 0 then Fin 0
      else
        (let (y, e) = (case up \<bar>x\<bar> 0 of (y, e) \<Rightarrow> down y e);
             v = scale2 (rne y) e
         in if 2 ^ 1024 \<le> v then (if x < 0 then NInf else PInf)
            else Fin (if x < 0 then - v else v)))"

text \<open>The operators \<open>*\<close> and \<open>/\<close>: the exact result, rounded.\<close>

fun js_times :: "jsnum \<Rightarrow> jsnum \<Rightarrow> jsnum" where
  "js_times NaN _ = NaN"
| "js_times _ NaN = NaN"
| "js_times (Fin a) (Fin b) = fl (a * b)"
| "js_times (Fin a) PInf = (if a = 0 then NaN else if 0 < a then PInf else NInf)"
| "js_times (Fin a) NInf = (if a = 0 then NaN else if 0 < a then NInf else PInf)"
| "js_times PInf (Fin b) = (if b = 0 then NaN else if 0 < b then PInf else NInf)"
| "js_times NInf (Fin b) = (if b = 0 then NaN else if 0 < b then NInf else PInf)"
| "js_times PInf PInf = PInf"
| "js_times PInf NInf = NInf"
| "js_times NInf PInf = NInf"
| "js_times NInf NInf = PInf"

text \<open>Division; a zero divisor is read as \<open>+0\<close>.\<close>

fun js_divide :: "jsnum \<Rightarrow> jsnum \<Rightarrow> jsnum" where
  "js_divide NaN _ = NaN"
| "js_divide _ NaN = NaN"
| "js_divide (Fin a) (Fin b) =
     (if b \<noteq> 0 then fl (a / b) else if a = 0 then NaN else if 0 < a then PInf else NInf)"
| "js_divide (Fin a) PInf = Fin 0"
| "js_divide (Fin a) NInf = Fin 0"
| "js_divide PInf (Fin b) = (if 0 \<le> b then PInf else NInf)"
| "js_divide NInf (Fin b) = (if 0 \<le> b then NInf else PInf)"
| "js_divide PInf PInf = NaN"
| "js_divide PInf NInf = NaN"
| "js_divide NInf PInf = NaN"
| "js_divide NInf NInf = NaN"

text \<open>\<open>Math.floor\<close>; the floor of a binary64 value is a binary64 value.\<close>

fun js_floor :: "jsnum \<Rightarrow> jsnum" where
  "js_floor (Fin a) = Fin (of_int \<lfloor>a\<rfloor>)"
| "js_floor x = x"

text \<open>The comparisons \<open><\<close> and \<open><=\<close>: false as soon as one side is NaN.\<close>

fun js_less :: "jsnum \<Rightarrow> jsnum \<Rightarrow> bool" where
  "js_less NaN _ = False"
| "js_less _ NaN = False"
| "js_less (Fin a) (Fin b) = (a < b)"
| "js_less NInf NInf = False"
| "js_less NInf _ = True"
| "js_less _ NInf = False"
| "js_less PInf _ = False"
| "js_less (Fin a) PInf = True"

fun js_le :: "jsnum \<Rightarrow> jsnum \<Rightarrow> bool" where
  "js_le NaN _ = False"
| "js_le _ NaN = False"
| "js_le (Fin a) (Fin b) = (a \<le> b)"
| "js_le NInf _ = True"
| "js_le PInf PInf = True"
| "js_le PInf _ = False"
| "js_le (Fin a) PInf = True"
| "js_le (Fin a) NInf = False"

fun isNaN :: "jsnum \<Rightarrow> bool" where
  "isNaN NaN = True"
| "isNaN _ = False"

subsection \<open>Strings\<close>

text \<open>
  Strings are lists of characters; white space and letter case are those of ASCII.
  \<open>trim\<close>, \<open>toLowerCase\<close> and \<open>includes\<close> are the methods of \<open>String.prototype\<close>.
\<close>

definition is_space :: "char \<Rightarrow> bool" where
  "is_space c = (c \<in> set [CHR '' '', CHR 0x09, CHR 0x0A, CHR 0x0B, CHR 0x0C, CHR 0x0D])"

definition trim :: "string \<Rightarrow> string" where
  "trim s = rev (dropWhile is_space (rev (dropWhile is_space s)))"

definition lower_char :: "char \<Rightarrow> char" where
  "lower_char c =
     (case map_of (zip ''ABCDEFGHIJKLMNOPQRSTUVWXYZ'' ''abcdefghijklmnopqrstuvwxyz'') c of
        None \<Rightarrow> c
      | Some l \<Rightarrow> l)"

definition toLowerCase :: "string \<Rightarrow> string" where
  "toLowerCase s = map lower_char s"

fun includes_str :: "string \<Rightarrow> string \<Rightarrow> bool" where
  "includes_str [] n = (n = [])"
| "includes_str (c # cs) n = (take (length n) (c # cs) = n \<or> includes_str cs n)"

text \<open>
  \<open>parseFloat\<close>: leading white space is skipped, then the longest prefix that is a
  decimal literal is read: an optional sign, then \<open>Infinity\<close>, or digits with an optional
  fraction and an optional exponent (a dot needs a digit on one of its sides, an exponent
  needs a digit). Without such a prefix the result is NaN; otherwise it is the number
  nearest to the value of the literal.
\<close>

definition is_digit :: "char \<Rightarrow> bool" where
  "is_digit c = (let n = (of_char c :: nat) in 48 \<le> n \<and> n \<le> 57)"

definition digit_val :: "char \<Rightarrow> nat" where
  "digit_val c = of_char c - 48"

definition decimal :: "string \<Rightarrow> nat" where
  "decimal s = foldl (\<lambda>a c. 10 * a + digit_val c) 0 s"

definition sign_split :: "string \<Rightarrow> bool \<times> string" where
  "sign_split s =
     (case s of
        [] \<Rightarrow> (False, [])
      | c # r \<Rightarrow> if c = CHR ''-'' then (True, r) else if c = CHR ''+'' then (False, r) else (False, s))"

definition exponent :: "string \<Rightarrow> int" where
  "exponent s =
     (case s of
        [] \<Rightarrow> 0
      | c # r \<Rightarrow>
          if c = CHR ''e'' \<or> c = CHR ''E'' then
            (let (neg, u) = sign_split r; ds = takeWhile is_digit u
             in if ds = [] then 0 else if neg then - int (decimal ds) else int (decimal ds))
          else 0)"

definition scale10 :: "real \<Rightarrow> int \<Rightarrow> real" where
  "scale10 m e = (if 0 \<le> e then m * 10 ^ nat e else m / 10 ^ nat (- e))"

definition parseFloat :: "string \<Rightarrow> jsnum" where
  "parseFloat s =
     (let (neg, u) = sign_split (dropWhile is_space s)
      in if take 8 u = ''Infinity'' then (if neg then NInf else PInf)
         else
           (let ip = takeWhile is_digit u;
                r1 = dropWhile is_digit u;
                fp = (case r1 of [] \<Rightarrow> [] | c # r \<Rightarrow> if c = CHR ''.'' then takeWhile is_digit r else []);
                r2 = (case r1 of [] \<Rightarrow> [] | c # r \<Rightarrow> if c = CHR ''.'' then dropWhile is_digit r else r1)
            in if ip = [] \<and> fp = [] then NaN
               else
                 (let m = scale10 (real (decimal ip) + real (decimal fp) / 10 ^ length fp) (exponent r2)
                  in fl (if neg then - m else m))))"

text \<open>The decimal digits of a non-negative integer, as a template literal prints it.\<close>

definition digit_char :: "nat \<Rightarrow> char" where
  "digit_char n = ''0123456789'' ! n"

fun show_nat :: "nat \<Rightarrow> string" where
  "show_nat n = (if n < 10 then [digit_char n] else show_nat (n div 10) @ [digit_char (n mod 10)])"

declare show_nat.simps [simp del]

subsection \<open>Template literals and errors\<close>

text \<open>
  A template literal is kept as its pieces: the literal text and the interpolated values,
  so that an interpolated number is the number itself and not its printed form.
  \<open>Undefined\<close> is the value \<open>undefined\<close>, and \<open>Inherited k\<close> is the value of the
  property \<open>k\<close> of \<open>Object.prototype\<close>.
\<close>

datatype piece = Lit string | Num jsnum | Undefined | Inherited string

type_synonym template = "piece list"

text \<open>\<open>new Error(m)\<close>, with its \<open>message\<close> and its \<open>toString()\<close>.\<close>

datatype jserror = JsError template

fun message :: "jserror \<Rightarrow> template" where
  "message (JsError m) = m"

definition blank :: "template \<Rightarrow> bool" where
  "blank m = list_all (\<lambda>p. p = Lit []) m"

definition toString :: "jserror \<Rightarrow> template" where
  "toString e = (if blank (message e) then [Lit ''Error''] else Lit ''Error: '' # message e)"

text \<open>An exit code is a number, or \<open>null\<close> when the child was ended by a signal.\<close>

definition code_piece :: "int option \<Rightarrow> piece" where
  "code_piece code = (case code of None \<Rightarrow> Lit ''null'' | Some n \<Rightarrow> Num (Fin (of_int n)))"

subsection \<open>Promises and child processes\<close>

text \<open>
  What awaiting a promise gives: a value, a thrown error, or nothing when the promise is
  never settled.
\<close>

datatype 'a outcome = Returns 'a | Throws jserror | Pending

text \<open>
  The handlers of a promise executor are run over the events of the child process, and
  what they do is logged in order: killing the child, calling \<open>resolve\<close>, calling
  \<open>reject\<close>. A promise is settled by the first call of \<open>resolve\<close> or \<open>reject\<close>; later
  calls have no effect.
\<close>

datatype event = Stdout string | Stderr string | Close "int option" | ErrorEv jserror

datatype 'a action = KillChild | Resolve 'a | Reject jserror

fun await :: "'a action list \<Rightarrow> 'a outcome" where
  "await [] = Pending"
| "await (KillChild # l) = await l"
| "await (Resolve v # l) = Returns v"
| "await (Reject e # l) = Throws e"

text \<open>Whether the child was killed before the promise was settled.\<close>

fun killed_first :: "'a action list \<Rightarrow> bool" where
  "killed_first [] = False"
| "killed_first (KillChild # l) = True"
| "killed_first (Resolve v # l) = False"
| "killed_first (Reject e # l) = False"

section \<open>resolve.ts\<close>

text \<open>
  What a function does to the world outside is recorded as a list of effects, in order:
  the files it touches, the children it spawns (with their arguments) and kills.
\<close>

type_synonym bytes = "8 word list"

datatype effect =
    Access string
  | Spawn string "template list"
  | Kill string
  | WriteFile string bytes
  | ReadFile string
  | Unlink string bool

datatype bin = Ffmpeg | Ffprobe

fun bin_name :: "bin \<Rightarrow> string" where
  "bin_name Ffmpeg = ''ffmpeg''"
| "bin_name Ffprobe = ''ffprobe''"

text \<open>\<open>process.platform\<close>, as far as \<open>candidatePaths\<close> tells its values apart.\<close>

datatype platform = Win32 | Darwin | OtherPlatform

definition backslash :: string where
  "backslash = [CHR 0x5C]"

fun candidatePaths :: "platform \<Rightarrow> bin \<Rightarrow> string list" where
  "candidatePaths Win32 b =
     [''C:'' @ backslash @ ''ffmpeg'' @ backslash @ ''bin'' @ backslash @ bin_name b @ ''.exe'',
      ''C:'' @ backslash @ ''Program Files'' @ backslash @ ''ffmpeg'' @ backslash @ ''bin''
        @ backslash @ bin_name b @ ''.exe'',
      ''C:'' @ backslash @ ''Program Files (x86)'' @ backslash @ ''ffmpeg'' @ backslash @ ''bin''
        @ backslash @ bin_name b @ ''.exe'']"
| "candidatePaths Darwin b =
     [''/opt/homebrew/bin/'' @ bin_name b,
      ''/usr/local/bin/'' @ bin_name b,
      ''/usr/bin/'' @ bin_name b]"
| "candidatePaths OtherPlatform b =
     [''/usr/bin/'' @ bin_name b,
      ''/usr/local/bin/'' @ bin_name b,
      ''/bin/'' @ bin_name b,
      ''/snap/bin/'' @ bin_name b,
      ''/app/bin/'' @ bin_name b]"

subsection \<open>validateBinary\<close>

text \<open>
  The variables of the promise executor: \<open>out\<close>, \<open>timeExceeded\<close>, whether
  \<open>clearTimeout(timeout)\<close> has been called, and the log of what the handlers did.
\<close>

record vstate =
  v_out :: string
  v_timeExceeded :: bool
  v_cleared :: bool
  v_log :: "unit action list"

text \<open>The callback of \<open>setTimeout\<close> (lines 49 to 53).\<close>

definition v_timeout :: "string \<Rightarrow> jsnum \<Rightarrow> vstate \<Rightarrow> vstate" where
  "v_timeout binPath timeoutMs st =
     st\<lparr>v_timeExceeded := True,
        v_log := v_log st @
          [KillChild,
           Reject (JsError [Lit binPath, Lit '' validation timed out after '', Num timeoutMs, Lit ''ms''])]\<rparr>"

text \<open>
  The listeners for \<open>data\<close> on stdout, \<open>close\<close> and \<open>error\<close> (lines 55 to 71); nothing
  listens to stderr.
\<close>

fun v_handle :: "string \<Rightarrow> string \<Rightarrow> vstate \<Rightarrow> event \<Rightarrow> vstate" where
  "v_handle binPath binName st (Stdout d) = st\<lparr>v_out := v_out st @ d\<rparr>"
| "v_handle binPath binName st (Stderr d) = st"
| "v_handle binPath binName st (Close code) =
     (if v_timeExceeded st then st\<lparr>v_cleared := True\<rparr>
      else if code \<noteq> Some 0 \<or> \<not> includes_str (toLowerCase (v_out st)) binName then
        st\<lparr>v_cleared := True,
           v_log := v_log st @
             [Reject (JsError [Lit binPath, Lit '' is not a valid '', Lit binName, Lit '' binary''])]\<rparr>
      else st\<lparr>v_cleared := True, v_log := v_log st @ [Resolve ()]\<rparr>)"
| "v_handle binPath binName st (ErrorEv err) =
     (if \<not> v_timeExceeded st then st\<lparr>v_cleared := True, v_log := v_log st @ [Reject err]\<rparr>
      else st\<lparr>v_cleared := True\<rparr>)"

text \<open>
  The child's events are given in two parts: those that arrive before the deadline
  \<open>timeoutMs\<close> and those that arrive after it. At the deadline the timer fires, unless it
  has been cleared.
\<close>

definition validateBinary :: "string \<Rightarrow> string \<Rightarrow> jsnum \<Rightarrow> event list \<Rightarrow> event list \<Rightarrow> vstate" where
  "validateBinary binPath binName timeoutMs before after =
     (let st0 = \<lparr>v_out = [], v_timeExceeded = False, v_cleared = False, v_log = []\<rparr>;
          st1 = foldl (v_handle binPath binName) st0 before;
          st2 = (if v_cleared st1 then st1 else v_timeout binPath timeoutMs st1)
      in foldl (v_handle binPath binName) st2 after)"

subsection \<open>resolveBinary\<close>

text \<open>
  The world as one call of \<open>resolveBinary\<close> finds it: the platform, \<open>path.isAbsolute\<close>,
  which paths \<open>access\<close> accepts, and the events of the child spawned from a path with
  \<open>-version\<close> (before and after the deadline of validation).
\<close>

record rworld =
  platform :: platform
  isAbsolute :: "string \<Rightarrow> bool"
  fileExists :: "string \<Rightarrow> bool"
  version_events :: "string \<Rightarrow> event list \<times> event list"

text \<open>
  \<open>await validateBinary(p, bin)\<close>, with the default \<open>timeoutMs = 5000\<close>: the outcome and
  the effects up to the moment the promise is settled.
\<close>

definition run_validate :: "rworld \<Rightarrow> string \<Rightarrow> bin \<Rightarrow> unit outcome \<times> effect list" where
  "run_validate w p b =
     (let st = validateBinary p (bin_name b) (Fin 5000)
                 (fst (version_events w p)) (snd (version_events w p))
      in (await (v_log st),
          Spawn p [[Lit ''-version'']] # (if killed_first (v_log st) then [Kill p] else [])))"

text \<open>The cache, and the test \<open>if (cache[bin])\<close>: an entry counts when it is a non-empty string.\<close>

type_synonym cache = "bin \<Rightarrow> string option"

definition cached :: "cache \<Rightarrow> bin \<Rightarrow> string option" where
  "cached c b = (case c b of None \<Rightarrow> None | Some p \<Rightarrow> if p = [] then None else Some p)"

definition pullBinary :: "cache \<Rightarrow> bin \<Rightarrow> jserror + string" where
  "pullBinary c b =
     (case cached c b of
        None \<Rightarrow> Inl (JsError [Lit ''requested binary has not been resolved''])
      | Some binPath \<Rightarrow> Inr binPath)"

text \<open>Lines 98 to 108, the branch \<open>if (userPath)\<close>, without the write to the cache.\<close>

definition resolve_user :: "rworld \<Rightarrow> bin \<Rightarrow> string \<Rightarrow> string outcome \<times> effect list" where
  "resolve_user w b userPath =
     (if \<not> isAbsolute w userPath then
        (Throws (JsError [Lit (bin_name b), Lit '' path must be absolute'']), [])
      else if \<not> fileExists w userPath then
        (Throws (JsError [Lit (bin_name b), Lit '' not found at '', Lit userPath]), [Access userPath])
      else
        (case run_validate w userPath b of
           (Returns u, tr) \<Rightarrow> (Returns userPath, Access userPath # tr)
         | (Throws e, tr) \<Rightarrow> (Throws e, Access userPath # tr)
         | (Pending, tr) \<Rightarrow> (Pending, Access userPath # tr)))"

text \<open>
  Lines 110 to 126, the loop over the candidates and the final \<open>throw\<close>, without the write
  to the cache (\<open>searchedPaths\<close> is only written, never read).
\<close>

fun resolve_candidates :: "rworld \<Rightarrow> bin \<Rightarrow> string list \<Rightarrow> string outcome \<times> effect list" where
  "resolve_candidates w b [] =
     (Throws (JsError [Lit (bin_name b),
                       Lit '' not found, either needs installation or define a custom path'']), [])"
| "resolve_candidates w b (p # ps) =
     (if fileExists w p then
        (case run_validate w p b of
           (Returns u, tr) \<Rightarrow> (Returns p, Access p # tr)
         | (Throws e, tr) \<Rightarrow>
             (let (r, tr') = resolve_candidates w b ps in (r, Access p # tr @ tr'))
         | (Pending, tr) \<Rightarrow> (Pending, Access p # tr))
      else (let (r, tr') = resolve_candidates w b ps in (r, Access p # tr')))"

text \<open>
  Everything after the test of the cache. \<open>if (userPath)\<close> holds for a string that is
  not empty.
\<close>

definition resolve_search :: "rworld \<Rightarrow> string option \<Rightarrow> bin \<Rightarrow> string outcome \<times> effect list" where
  "resolve_search w userPath b =
     (case userPath of
        None \<Rightarrow> resolve_candidates w b (candidatePaths (platform w) b)
      | Some u \<Rightarrow>
          if u \<noteq> [] then resolve_user w b u
          else resolve_candidates w b (candidatePaths (platform w) b))"

text \<open>The writes \<open>cache[bin] = userPath\<close> and \<open>cache[bin] = p\<close>, just before the \<open>return\<close>.\<close>

definition resolve_commit :: "cache \<Rightarrow> bin \<Rightarrow> string outcome \<Rightarrow> cache" where
  "resolve_commit c b r = (case r of Returns p \<Rightarrow> c(b \<mapsto> p) | Throws e \<Rightarrow> c | Pending \<Rightarrow> c)"

text \<open>
  One call of \<open>resolveBinary\<close> that runs from its beginning to its end with no other call
  in between: the outcome, the cache afterwards and the effects.
\<close>

definition resolveBinary ::
  "rworld \<Rightarrow> cache \<Rightarrow> string option \<Rightarrow> bin \<Rightarrow> string outcome \<times> cache \<times> effect list" where
  "resolveBinary w c userPath b =
     (case cached c b of
        Some p \<Rightarrow> (Returns p, c, [])
      | None \<Rightarrow>
          (let (r, tr) = resolve_search w userPath b in (r, resolve_commit c b r, tr)))"

text \<open>
  \<open>resolveBinary\<close> is an \<open>async\<close> function: between its test of the cache and its write to
  the cache it waits for \<open>access\<close> and for the child, and other calls run meanwhile. A
  call is therefore two steps: \<open>Call\<close> tests the cache and, on a miss, starts the search;
  \<open>Resume\<close> is the end of the search, with the write to the cache on success. Calls are
  told apart by a number.
\<close>

datatype step = Call nat rworld "string option" bin | Resume nat

record rstate =
  r_cache :: cache
  r_waiting :: "(nat \<times> bin \<times> string outcome) list"
  r_returned :: "(nat \<times> string outcome) list"

fun run_step :: "rstate \<Rightarrow> step \<Rightarrow> rstate" where
  "run_step s (Call i w userPath b) =
     (case cached (r_cache s) b of
        Some p \<Rightarrow> s\<lparr>r_returned := r_returned s @ [(i, Returns p)]\<rparr>
      | None \<Rightarrow> s\<lparr>r_waiting := r_waiting s @ [(i, b, fst (resolve_search w userPath b))]\<rparr>)"
| "run_step s (Resume i) =
     (case map_of (r_waiting s) i of
        None \<Rightarrow> s
      | Some (b, r) \<Rightarrow>
          s\<lparr>r_cache := resolve_commit (r_cache s) b r,
            r_waiting := filter (\<lambda>x. fst x \<noteq> i) (r_waiting s),
            r_returned := r_returned s @ [(i, r)]\<rparr>)"

definition run_steps :: "cache \<Rightarrow> step list \<Rightarrow> rstate" where
  "run_steps c steps = foldl run_step \<lparr>r_cache = c, r_waiting = [], r_returned = []\<rparr> steps"

section \<open>native.ts\<close>

subsection \<open>The bitrate\<close>

text \<open>
  Lines 56 and 58 of \<open>handleFile\<close>:
  \<^verbatim>\<open>const tgBits = target * 8 * 1024 * 1024;\<close> and
  \<^verbatim>\<open>const videoBitrate = Math.floor(tgBits / duration / 1000);\<close>
\<close>

definition tgBits :: "jsnum \<Rightarrow> jsnum" where
  "tgBits target = js_times (js_times (js_times target (Fin 8)) (Fin 1024)) (Fin 1024)"

definition videoBitrate :: "jsnum \<Rightarrow> jsnum \<Rightarrow> jsnum" where
  "videoBitrate target duration =
     js_floor (js_divide (js_divide (tgBits target) duration) (Fin 1000))"

subsection \<open>getVideoDuration\<close>

record pstate =
  p_out :: string
  p_errOut :: string
  p_log :: "jsnum action list"

text \<open>The listeners for \<open>data\<close> on stdout and on stderr, \<open>close\<close> and \<open>error\<close> (lines 96 to 121).\<close>

fun p_handle :: "pstate \<Rightarrow> event \<Rightarrow> pstate" where
  "p_handle st (Stdout d) = st\<lparr>p_out := p_out st @ d\<rparr>"
| "p_handle st (Stderr d) = st\<lparr>p_errOut := p_errOut st @ d\<rparr>"
| "p_handle st (Close code) =
     (if code \<noteq> Some 0 then
        st\<lparr>p_log := p_log st @
          [Reject (JsError [Lit ''ffprobe exited with '', code_piece code, Lit '', '',
                            Lit (trim (p_errOut st))])]\<rparr>
      else
        (let duration = parseFloat (trim (p_out st))
         in if isNaN duration \<or> js_le duration (Fin 0) then
              st\<lparr>p_log := p_log st @ [Reject (JsError [Lit ''ffprobe invalid data''])]\<rparr>
            else st\<lparr>p_log := p_log st @ [Resolve duration]\<rparr>))"
| "p_handle st (ErrorEv err) =
     st\<lparr>p_log := p_log st @ [Reject (JsError (Lit ''failed to spawn ffprobe: '' # message err))]\<rparr>"

definition probe_run :: "event list \<Rightarrow> pstate" where
  "probe_run events = foldl p_handle \<lparr>p_out = [], p_errOut = [], p_log = []\<rparr> events"

definition probe_args :: "string \<Rightarrow> template list" where
  "probe_args inputPath =
     [[Lit ''-v''], [Lit ''error''], [Lit ''-show_entries''], [Lit ''format=duration''],
      [Lit ''-of''], [Lit ''default=noprint_wrappers=1:nokey=1''], [Lit inputPath]]"

text \<open>
  \<open>await getVideoDuration(inputPath)\<close>. A throw of \<open>pullBinary\<close> inside the executor
  rejects the promise. There is no timer: a child that neither closes nor fails leaves
  the promise pending.
\<close>

definition getVideoDuration :: "cache \<Rightarrow> string \<Rightarrow> event list \<Rightarrow> jsnum outcome \<times> effect list" where
  "getVideoDuration c inputPath events =
     (case pullBinary c Ffprobe of
        Inl e \<Rightarrow> (Throws e, [])
      | Inr binPath \<Rightarrow> (await (p_log (probe_run events)), [Spawn binPath (probe_args inputPath)]))"

subsection \<open>compressVideo\<close>

definition quote :: string where
  "quote = [CHR 0x27]"

definition scale_filter :: "string \<Rightarrow> string \<Rightarrow> string" where
  "scale_filter width height =
     ''scale='' @ quote @ ''min(iw,'' @ width @ '')'' @ quote @ '':'' @ quote @ ''min(ih,'' @ height
       @ '')'' @ quote @ '':force_original_aspect_ratio=decrease,pad=ceil(iw/2)*2:ceil(ih/2)*2''"

text \<open>
  \<open>resolutionMap[maxResolution]\<close>: the object literal has the three keys; any other key
  is looked up in \<open>Object.prototype\<close>, and is \<open>undefined\<close> when it is not there either.
\<close>

definition object_prototype_keys :: "string list" where
  "object_prototype_keys =
     [''constructor'', ''__proto__'', ''hasOwnProperty'', ''isPrototypeOf'',
      ''propertyIsEnumerable'', ''toLocaleString'', ''toString'', ''valueOf'',
      ''__defineGetter__'', ''__defineSetter__'', ''__lookupGetter__'', ''__lookupSetter__'']"

definition resolutionMap :: "string \<Rightarrow> piece" where
  "resolutionMap key =
     (if key = ''1080'' then Lit (scale_filter ''1920'' ''1080'')
      else if key = ''720'' then Lit (scale_filter ''1280'' ''720'')
      else if key = ''480'' then Lit (scale_filter ''854'' ''480'')
      else if key \<in> set object_prototype_keys then Inherited key
      else Undefined)"

definition encoder_args ::
  "string \<Rightarrow> string \<Rightarrow> jsnum \<Rightarrow> jsnum \<Rightarrow> string \<Rightarrow> string \<Rightarrow> template list" where
  "encoder_args inputPath outputPath vidBitrate audioBitrate preset maxResolution =
     [[Lit ''-y''], [Lit ''-i''], [Lit inputPath], [Lit ''-c:v''], [Lit ''libx264''],
      [Lit ''-b:v''], [Num vidBitrate, Lit ''k''],
      [Lit ''-maxrate''], [Num vidBitrate, Lit ''k''],
      [Lit ''-bufsize''], [Num (js_times vidBitrate (Fin 2)), Lit ''k''],
      [Lit ''-preset''], [Lit preset]]
     @ (if maxResolution \<noteq> ''original'' then
          [[Lit ''-vf''], [resolutionMap maxResolution]]
        else [])
     @ [[Lit ''-c:a''], [Lit ''aac''], [Lit ''-b:a''], [Num audioBitrate, Lit ''k''],
        [Lit ''-map_metadata''], [Lit ''0''], [Lit ''-movflags''], [Lit ''+faststart''],
        [Lit outputPath]]"

record cstate =
  c_errOut :: string
  c_log :: "unit action list"

text \<open>The callback of \<open>setTimeout\<close> (lines 182 to 186); the timer is never cleared.\<close>

definition c_timeout :: "jsnum \<Rightarrow> cstate \<Rightarrow> cstate" where
  "c_timeout ffmpegTimeout st =
     st\<lparr>c_log := c_log st @
       [KillChild,
        Reject (JsError [Lit ''ffmpeg exceeded alloted time of '',
                         Num (js_divide ffmpegTimeout (Fin 1000))])]\<rparr>"

text \<open>
  The listeners for \<open>data\<close> on stderr, \<open>close\<close> and \<open>error\<close> (lines 179 to 198); nothing
  listens to stdout.
\<close>

fun c_handle :: "cstate \<Rightarrow> event \<Rightarrow> cstate" where
  "c_handle st (Stdout d) = st"
| "c_handle st (Stderr d) = st\<lparr>c_errOut := c_errOut st @ d\<rparr>"
| "c_handle st (Close code) =
     (if code = Some 0 then st\<lparr>c_log := c_log st @ [Resolve ()]\<rparr>
      else
        st\<lparr>c_log := c_log st @
          [Reject (JsError [Lit ''ffmpeg exited with code '', code_piece code, Lit '', '',
                            Lit (c_errOut st)])]\<rparr>)"
| "c_handle st (ErrorEv err) =
     st\<lparr>c_log := c_log st @
       [Reject (JsError ([Lit ''ffmpeg spawn error ''] @ toString err
                         @ [Lit ''. stderr: '', Lit (c_errOut st)]))]\<rparr>"

text \<open>
  The events of the encoder before the deadline \<open>ffmpegTimeout\<close>, the timer, the events
  after the deadline.
\<close>

definition encoder_run :: "jsnum \<Rightarrow> event list \<Rightarrow> event list \<Rightarrow> cstate" where
  "encoder_run ffmpegTimeout before after =
     (let st1 = foldl c_handle \<lparr>c_errOut = [], c_log = []\<rparr> before
      in foldl c_handle (c_timeout ffmpegTimeout st1) after)"

text \<open>\<open>await compressVideo(...)\<close>: the outcome and the effects up to the settling of the promise.\<close>

definition compressVideo ::
  "cache \<Rightarrow> string \<Rightarrow> string \<Rightarrow> jsnum \<Rightarrow> jsnum \<Rightarrow> string \<Rightarrow> string \<Rightarrow> jsnum
     \<Rightarrow> event list \<times> event list \<Rightarrow> unit outcome \<times> effect list" where
  "compressVideo c inputPath outputPath vidBitrate audioBitrate preset maxResolution ffmpegTimeout evs =
     (case pullBinary c Ffmpeg of
        Inl e \<Rightarrow> (Throws e, [])
      | Inr binPath \<Rightarrow>
          (let st = encoder_run ffmpegTimeout (fst evs) (snd evs)
           in (await (c_log st),
               Spawn binPath
                 (encoder_args inputPath outputPath vidBitrate audioBitrate preset maxResolution)
               # (if killed_first (c_log st) then [Kill binPath] else []))))"

subsection \<open>handleFile\<close>

text \<open>
  The world as one call of \<open>handleFile\<close> finds it: \<open>os.tmpdir()\<close>, \<open>path.extname\<close>,
  \<open>path.join\<close>, the two readings of \<open>Date.now()\<close>, whether \<open>writeFile\<close> fails, the events of the probe and of
  the encoder, what \<open>readFile\<close> gives, and which paths \<open>unlink\<close> removes.
\<close>

record nworld =
  tmpdir :: string
  extname :: "string \<Rightarrow> string"
  path_join :: "string \<Rightarrow> string \<Rightarrow> string"
  now_in :: nat
  now_out :: nat
  writeFile_error :: "jserror option"
  probe_events :: "event list"
  encoder_events :: "event list \<times> event list"
  readFile_result :: "jserror + bytes"
  unlink_ok :: "string \<Rightarrow> bool"

datatype CompressResult = Success bytes | Failure template

text \<open>Lines 45 to 48: \<open>fileExt\<close>, \<open>inPath\<close> and \<open>outPath\<close>.\<close>

definition fileExt :: "nworld \<Rightarrow> string \<Rightarrow> string" where
  "fileExt w fileName = (if extname w fileName = [] then ''.mp4'' else extname w fileName)"

definition inPath :: "nworld \<Rightarrow> string \<Rightarrow> string" where
  "inPath w fileName = path_join w (tmpdir w) (''ac_in_'' @ show_nat (now_in w) @ fileExt w fileName)"

definition outPath :: "nworld \<Rightarrow> string \<Rightarrow> string" where
  "outPath w fileName = path_join w (tmpdir w) (''ac_out_'' @ show_nat (now_out w) @ fileExt w fileName)"

text \<open>
  \<open>cleanup\<close>: one \<open>unlink\<close> for each path; \<open>Promise.allSettled\<close> is fulfilled whether the
  deletions succeed or not.
\<close>

definition cleanup :: "nworld \<Rightarrow> string list \<Rightarrow> effect list" where
  "cleanup w paths = map (\<lambda>p. Unlink p (unlink_ok w p)) paths"

text \<open>The \<open>catch\<close> block (lines 73 to 79), entered after the effects \<open>tr\<close>.\<close>

definition catch_message :: "jserror \<Rightarrow> template" where
  "catch_message err =
     (if \<not> blank (message err) then message err
      else if \<not> blank (toString err) then toString err
      else [Lit ''unk error''])"

definition on_catch ::
  "nworld \<Rightarrow> string \<Rightarrow> jserror \<Rightarrow> effect list \<Rightarrow> CompressResult option \<times> effect list" where
  "on_catch w fileName err tr =
     (Some (Failure (catch_message err)), tr @ cleanup w [inPath w fileName, outPath w fileName])"

text \<open>
  \<open>handleFile\<close>: what it returns (\<open>None\<close> when it never returns) and its effects up to
  there.
\<close>

definition handleFile ::
  "nworld \<Rightarrow> cache \<Rightarrow> bytes \<Rightarrow> string \<Rightarrow> jsnum \<Rightarrow> string \<Rightarrow> string \<Rightarrow> jsnum
     \<Rightarrow> CompressResult option \<times> effect list" where
  "handleFile w c fileData fileName target preset resolution timeout =
     (let inP = inPath w fileName; outP = outPath w fileName; tr0 = [WriteFile inP fileData]
      in case writeFile_error w of
           Some err \<Rightarrow> on_catch w fileName err tr0
         | None \<Rightarrow>
             (case getVideoDuration c inP (probe_events w) of
                (Pending, tr1) \<Rightarrow> (None, tr0 @ tr1)
              | (Throws err, tr1) \<Rightarrow> on_catch w fileName err (tr0 @ tr1)
              | (Returns duration, tr1) \<Rightarrow>
                  (let audioBitrate = Fin 128; vb = videoBitrate target duration
                   in if js_less vb (Fin 100) then
                        (Some (Failure [Lit ''target bitrate too low ('', Num vb, Lit ''k)'']),
                         tr0 @ tr1 @ cleanup w [inP])
                      else
                        (case compressVideo c inP outP vb audioBitrate preset resolution timeout
                                (encoder_events w) of
                           (Pending, tr2) \<Rightarrow> (None, tr0 @ tr1 @ tr2)
                         | (Throws err, tr2) \<Rightarrow> on_catch w fileName err (tr0 @ tr1 @ tr2)
                         | (Returns u, tr2) \<Rightarrow>
                             (case readFile_result w of
                                Inl err \<Rightarrow>
                                  on_catch w fileName err (tr0 @ tr1 @ tr2 @ [ReadFile outP])
                              | Inr res \<Rightarrow>
                                  (Some (Success res),
                                   tr0 @ tr1 @ tr2 @ [ReadFile outP] @ cleanup w [inP, outP]))))))"

section \<open>Reading runs\<close>

text \<open>
  The events before a child closes or fails are its output: \<open>is_data\<close> holds for them,
  and \<open>stdout_text\<close> and \<open>stderr_text\<close> are what the child has written so far.
\<close>

fun is_data :: "event \<Rightarrow> bool" where
  "is_data (Stdout d) = True"
| "is_data (Stderr d) = True"
| "is_data (Close code) = False"
| "is_data (ErrorEv err) = False"

fun stdout_of :: "event \<Rightarrow> string" where
  "stdout_of (Stdout d) = d"
| "stdout_of e = []"

fun stderr_of :: "event \<Rightarrow> string" where
  "stderr_of (Stderr d) = d"
| "stderr_of e = []"

definition stdout_text :: "event list \<Rightarrow> string" where
  "stdout_text evs = concat (map stdout_of evs)"

definition stderr_text :: "event list \<Rightarrow> string" where
  "stderr_text evs = concat (map stderr_of evs)"

text \<open>
  Concrete worlds for running the functions. \<open>posix_isAbsolute\<close> is \<open>path.isAbsolute\<close> on
  POSIX (the path begins with a slash); \<open>single_dot_ext\<close> is \<open>path.extname\<close> on a plain
  file name with at most one dot, which is not its first character; \<open>posix_join\<close> is
  \<open>path.join\<close> on POSIX for a normalised directory other than the root and a plain file
  name.
\<close>

definition posix_join :: "string \<Rightarrow> string \<Rightarrow> string" where
  "posix_join dir name = dir @ ''/'' @ name"

definition posix_isAbsolute :: "string \<Rightarrow> bool" where
  "posix_isAbsolute p = (take 1 p = ''/'')"

definition single_dot_ext :: "string \<Rightarrow> string" where
  "single_dot_ext name = dropWhile (\<lambda>c. c \<noteq> CHR ''.'') name"

definition example_rworld :: rworld where
  "example_rworld =
     \<lparr>platform = OtherPlatform,
      isAbsolute = posix_isAbsolute,
      fileExists = (\<lambda>p. p \<in> set [''/opt/a/ffmpeg'', ''/opt/b/ffmpeg'']),
      version_events = (\<lambda>p. ([Stdout ''ffmpeg version 6.1'', Close (Some 0)], []))\<rparr>"

definition example_cache :: cache where
  "example_cache = [Ffmpeg \<mapsto> ''/usr/bin/ffmpeg'', Ffprobe \<mapsto> ''/usr/bin/ffprobe'']"

definition example_nworld :: nworld where
  "example_nworld =
     \<lparr>tmpdir = ''/tmp'',
      extname = single_dot_ext,
      path_join = posix_join,
      now_in = 1700000000000,
      now_out = 1700000000000,
      writeFile_error = None,
      probe_events = [Stdout ''120.500000'', Close (Some 0)],
      encoder_events = ([Stderr ''frame=1''], [Close None]),
      readFile_result = Inr [1, 2, 3],
      unlink_ok = (\<lambda>p. True)\<rparr>"

section \<open>Verification\<close>

subsection \<open>Runs of the handlers\<close>

lemma v_data_run:
  "list_all is_data evs \<Longrightarrow>
   foldl (v_handle p n) st evs = st\<lparr>v_out := v_out st @ stdout_text evs\<rparr>"
proof (induction evs arbitrary: st)
  case Nil
  then show ?case by (simp add: stdout_text_def)
next
  case (Cons e evs)
  then show ?case by (cases e) (simp_all add: stdout_text_def)
qed

lemma v_after_timeout:
  "v_timeExceeded st \<Longrightarrow>
   v_log (foldl (v_handle p n) st evs) = v_log st \<and> v_timeExceeded (foldl (v_handle p n) st evs)"
proof (induction evs arbitrary: st)
  case Nil
  then show ?case by simp
next
  case (Cons e evs)
  then show ?case by (cases e) simp_all
qed

lemma v_log_grows:
  "\<exists>l. v_log (foldl (v_handle p n) st evs) = v_log st @ l"
proof (induction evs arbitrary: st)
  case Nil
  then show ?case by simp
next
  case (Cons e evs)
  obtain l where l: "v_log (foldl (v_handle p n) (v_handle p n st e) evs) = v_log (v_handle p n st e) @ l"
    using Cons.IH by blast
  have "\<exists>k. v_log (v_handle p n st e) = v_log st @ k"
    by (cases e) simp_all
  then obtain k where "v_log (v_handle p n st e) = v_log st @ k" ..
  with l show ?case by simp
qed

lemma v_cleared_stays:
  "v_cleared st \<Longrightarrow> v_cleared (foldl (v_handle p n) st evs)"
proof (induction evs arbitrary: st)
  case Nil
  then show ?case by simp
next
  case (Cons e evs)
  then show ?case by (cases e) simp_all
qed

lemma await_settled_append:
  "await l \<noteq> Pending \<Longrightarrow> await (l @ k) = await l"
  by (induction l rule: await.induct) simp_all

lemma killed_first_append:
  "await l \<noteq> Pending \<Longrightarrow> killed_first (l @ k) = killed_first l"
  by (induction l rule: await.induct) simp_all

lemma lower_bin_name: "toLowerCase (bin_name b) = bin_name b"
  by (cases b) (simp_all add: toLowerCase_def lower_char_def)

lemma p_data_run:
  "list_all is_data evs \<Longrightarrow>
   foldl p_handle st evs =
     st\<lparr>p_out := p_out st @ stdout_text evs, p_errOut := p_errOut st @ stderr_text evs\<rparr>"
proof (induction evs arbitrary: st)
  case Nil
  then show ?case by (simp add: stdout_text_def stderr_text_def)
next
  case (Cons e evs)
  then show ?case by (cases e) (simp_all add: stdout_text_def stderr_text_def)
qed

lemma p_log_grows: "\<exists>l. p_log (foldl p_handle st evs) = p_log st @ l"
proof (induction evs arbitrary: st)
  case Nil
  then show ?case by simp
next
  case (Cons e evs)
  obtain l where l: "p_log (foldl p_handle (p_handle st e) evs) = p_log (p_handle st e) @ l"
    using Cons.IH by blast
  have "\<exists>k. p_log (p_handle st e) = p_log st @ k"
    by (cases e) (simp_all add: Let_def)
  then obtain k where "p_log (p_handle st e) = p_log st @ k" ..
  with l show ?case by simp
qed

lemma c_data_run:
  "list_all is_data evs \<Longrightarrow>
   foldl c_handle st evs = st\<lparr>c_errOut := c_errOut st @ stderr_text evs\<rparr>"
proof (induction evs arbitrary: st)
  case Nil
  then show ?case by (simp add: stderr_text_def)
next
  case (Cons e evs)
  then show ?case by (cases e) (simp_all add: stderr_text_def)
qed

lemma c_log_grows: "\<exists>l. c_log (foldl c_handle st evs) = c_log st @ l"
proof (induction evs arbitrary: st)
  case Nil
  then show ?case by simp
next
  case (Cons e evs)
  obtain l where l: "c_log (foldl c_handle (c_handle st e) evs) = c_log (c_handle st e) @ l"
    using Cons.IH by blast
  have "\<exists>k. c_log (c_handle st e) = c_log st @ k"
    by (cases e) simp_all
  then obtain k where "c_log (c_handle st e) = c_log st @ k" ..
  with l show ?case by simp
qed

subsection \<open>Every promise with a timer is settled\<close>

lemma await_snoc_settle:
  "await (l @ [Resolve v]) \<noteq> Pending" "await (l @ [Reject e]) \<noteq> Pending"
  by (induction l rule: await.induct) simp_all

lemma await_kill_reject: "await (l @ [KillChild, Reject e]) \<noteq> Pending"
  by (induction l rule: await.induct) simp_all

lemma v_before_deadline:
  "\<not> v_timeExceeded st \<Longrightarrow> (v_cleared st \<longrightarrow> await (v_log st) \<noteq> Pending) \<Longrightarrow>
   \<not> v_timeExceeded (foldl (v_handle p n) st evs)
   \<and> (v_cleared (foldl (v_handle p n) st evs) \<longrightarrow> await (v_log (foldl (v_handle p n) st evs)) \<noteq> Pending)"
proof (induction evs arbitrary: st)
  case Nil
  then show ?case by simp
next
  case (Cons e evs)
  have "\<not> v_timeExceeded (v_handle p n st e)
        \<and> (v_cleared (v_handle p n st e) \<longrightarrow> await (v_log (v_handle p n st e)) \<noteq> Pending)"
    using Cons.prems by (cases e) (simp_all add: await_snoc_settle)
  then show ?case using Cons.IH by simp
qed

lemma validateBinary_settles:
  "await (v_log (validateBinary p n t before after)) \<noteq> Pending"
proof -
  let ?init = "\<lparr>v_out = [], v_timeExceeded = False, v_cleared = False, v_log = []\<rparr>"
  let ?mid = "foldl (v_handle p n) ?init before"
  let ?at = "if v_cleared ?mid then ?mid else v_timeout p t ?mid"
  have mid: "v_cleared ?mid \<longrightarrow> await (v_log ?mid) \<noteq> Pending"
    using v_before_deadline [of ?init p n before] by simp
  have "await (v_log ?at) \<noteq> Pending"
  proof (cases "v_cleared ?mid")
    case True
    with mid show ?thesis by simp
  next
    case False
    then show ?thesis by (simp add: v_timeout_def await_kill_reject)
  qed
  moreover obtain l where "v_log (foldl (v_handle p n) ?at after) = v_log ?at @ l"
    using v_log_grows by blast
  ultimately have "await (v_log (foldl (v_handle p n) ?at after)) \<noteq> Pending"
    by (simp add: await_settled_append)
  then show ?thesis by (simp add: validateBinary_def Let_def)
qed

lemma run_validate_settles: "fst (run_validate w p b) \<noteq> Pending"
  by (simp add: run_validate_def Let_def validateBinary_settles)

lemma resolve_candidates_settles: "fst (resolve_candidates w b ps) \<noteq> Pending"
proof (induction ps)
  case Nil
  then show ?case by simp
next
  case (Cons p ps)
  then show ?case
    using run_validate_settles [of w p b]
    by (auto split: prod.splits outcome.splits)
qed

lemma resolveBinary_settles: "fst (resolveBinary w c u b) \<noteq> Pending"
proof -
  have "fst (resolve_user w b v) \<noteq> Pending" for v
    using run_validate_settles [of w v b]
    by (auto simp: resolve_user_def split: prod.splits outcome.splits)
  then have "fst (resolve_search w u b) \<noteq> Pending"
    by (simp add: resolve_search_def resolve_candidates_settles split: option.splits)
  then show ?thesis
    by (auto simp: resolveBinary_def split: option.splits prod.splits)
qed

lemma encoder_run_settles: "await (c_log (encoder_run t before after)) \<noteq> Pending"
proof -
  let ?mid = "foldl c_handle \<lparr>c_errOut = [], c_log = []\<rparr> before"
  have "await (c_log (c_timeout t ?mid)) \<noteq> Pending"
    by (simp add: c_timeout_def await_kill_reject)
  moreover obtain l where "c_log (foldl c_handle (c_timeout t ?mid) after) = c_log (c_timeout t ?mid) @ l"
    using c_log_grows by blast
  ultimately show ?thesis
    by (simp add: encoder_run_def Let_def await_settled_append)
qed

lemma compressVideo_settles:
  "fst (compressVideo c inP outP vb ab pr rs t evs) \<noteq> Pending"
  by (simp add: compressVideo_def Let_def encoder_run_settles split: sum.splits)

lemma compressVideo_not_pending:
  "compressVideo c inP outP vb ab pr rs t evs \<noteq> (Pending, tr)"
  using compressVideo_settles [of c inP outP vb ab pr rs t evs] by auto

lemma handleFile_returns:
  assumes "fst (getVideoDuration c (inPath w fileName) (probe_events w)) \<noteq> Pending"
  shows "fst (handleFile w c fileData fileName target preset resolution timeout) \<noteq> None"
  using assms
  by (auto simp: handleFile_def on_catch_def Let_def compressVideo_not_pending
      split: option.splits prod.splits outcome.splits sum.splits)

subsection \<open>Outcomes of the runs\<close>

lemma encoder_run_timeout:
  assumes "list_all is_data before"
  shows "\<exists>l. c_log (encoder_run t before after) =
           KillChild
           # Reject (JsError [Lit ''ffmpeg exceeded alloted time of '', Num (js_divide t (Fin 1000))])
           # l"
proof -
  let ?init = "\<lparr>c_errOut = [], c_log = []\<rparr>"
  have pre: "foldl c_handle ?init before = ?init\<lparr>c_errOut := stderr_text before\<rparr>"
    by (simp add: c_data_run [OF assms])
  let ?fired = "c_timeout t (?init\<lparr>c_errOut := stderr_text before\<rparr>)"
  have "c_log ?fired =
        [KillChild,
         Reject (JsError [Lit ''ffmpeg exceeded alloted time of '', Num (js_divide t (Fin 1000))])]"
    by (simp add: c_timeout_def)
  moreover obtain l where "c_log (foldl c_handle ?fired after) = c_log ?fired @ l"
    using c_log_grows by blast
  ultimately show ?thesis
    by (simp add: encoder_run_def pre)
qed

lemma compressVideo_timeout:
  assumes "list_all is_data (fst evs)" and "pullBinary c Ffmpeg = Inr binPath"
  shows "compressVideo c inP outP vb ab pr rs t evs =
           (Throws (JsError [Lit ''ffmpeg exceeded alloted time of '', Num (js_divide t (Fin 1000))]),
            [Spawn binPath (encoder_args inP outP vb ab pr rs), Kill binPath])"
proof -
  obtain l where "c_log (encoder_run t (fst evs) (snd evs)) =
      KillChild
      # Reject (JsError [Lit ''ffmpeg exceeded alloted time of '', Num (js_divide t (Fin 1000))])
      # l"
    using encoder_run_timeout [OF assms(1)] by blast
  then show ?thesis
    by (simp add: compressVideo_def assms(2))
qed

lemma probe_run_close:
  assumes "list_all is_data pre"
  shows "await (p_log (probe_run (pre @ Close code # rest))) =
     (if code \<noteq> Some 0 then
        Throws (JsError [Lit ''ffprobe exited with '', code_piece code, Lit '', '',
                         Lit (trim (stderr_text pre))])
      else if isNaN (parseFloat (trim (stdout_text pre)))
              \<or> js_le (parseFloat (trim (stdout_text pre))) (Fin 0) then
        Throws (JsError [Lit ''ffprobe invalid data''])
      else Returns (parseFloat (trim (stdout_text pre))))"
proof -
  let ?init = "\<lparr>p_out = [], p_errOut = [], p_log = []\<rparr>"
  let ?loaded = "?init\<lparr>p_out := stdout_text pre, p_errOut := stderr_text pre\<rparr>"
  have pre: "foldl p_handle ?init pre = ?loaded"
    by (simp add: p_data_run [OF assms])
  let ?x = "if code \<noteq> Some 0 then
        Reject (JsError [Lit ''ffprobe exited with '', code_piece code, Lit '', '',
                         Lit (trim (stderr_text pre))])
      else if isNaN (parseFloat (trim (stdout_text pre)))
              \<or> js_le (parseFloat (trim (stdout_text pre))) (Fin 0) then
        Reject (JsError [Lit ''ffprobe invalid data''])
      else Resolve (parseFloat (trim (stdout_text pre)))"
  have one: "p_log (p_handle ?loaded (Close code)) = [?x]"
    by (simp add: Let_def)
  obtain l where "p_log (foldl p_handle (p_handle ?loaded (Close code)) rest) = [?x] @ l"
    using p_log_grows [of "p_handle ?loaded (Close code)" rest] one by metis
  then have whole: "p_log (probe_run (pre @ Close code # rest)) = [?x] @ l"
    by (simp add: probe_run_def pre)
  have "await [?x] \<noteq> Pending" by simp
  then have "await (p_log (probe_run (pre @ Close code # rest))) = await [?x]"
    unfolding whole by (rule await_settled_append)
  then show ?thesis by simp
qed

lemma handleFile_probe_throws:
  assumes "writeFile_error w = None"
    and "pullBinary c Ffprobe = Inr pb"
    and "await (p_log (probe_run (probe_events w))) = Throws err"
  shows "handleFile w c fileData fileName target preset resolution timeout =
     (Some (Failure (catch_message err)),
      [WriteFile (inPath w fileName) fileData, Spawn pb (probe_args (inPath w fileName))]
      @ cleanup w [inPath w fileName, outPath w fileName])"
  using assms by (simp add: handleFile_def getVideoDuration_def on_catch_def Let_def)

lemma paths_unlink_update:
  "inPath (w\<lparr>unlink_ok := f\<rparr>) fileName = inPath w fileName"
  "outPath (w\<lparr>unlink_ok := f\<rparr>) fileName = outPath w fileName"
  by (simp_all add: inPath_def outPath_def fileExt_def)

lemma handleFile_unlink_irrelevant:
  "fst (handleFile (w\<lparr>unlink_ok := f\<rparr>) c fileData fileName target preset resolution timeout) =
   fst (handleFile w c fileData fileName target preset resolution timeout)"
  by (simp add: handleFile_def on_catch_def paths_unlink_update Let_def
      split: option.splits prod.splits outcome.splits sum.splits)

lemma getVideoDuration_returns_trace:
  "getVideoDuration c inP evs = (Returns d, tr) \<Longrightarrow> \<exists>pb. tr = [Spawn pb (probe_args inP)]"
  by (auto simp: getVideoDuration_def split: sum.splits)

subsection \<open>The search of resolveBinary\<close>



lemma resolve_candidates_throws:
  "fst (resolve_candidates w b ps) = Throws e \<Longrightarrow>
   e = JsError [Lit (bin_name b),
                Lit '' not found, either needs installation or define a custom path'']"
  by (induction ps) (auto split: if_splits prod.splits outcome.splits)





lemma call_then_resume:
  "r_cache (run_steps c [Call i w u b, Resume i]) = fst (snd (resolveBinary w c u b))
   \<and> r_returned (run_steps c [Call i w u b, Resume i]) = [(i, fst (resolveBinary w c u b))]"
  by (cases "cached c b")
     (simp_all add: run_steps_def resolveBinary_def split: prod.splits)

lemma run_validate_effects:
  "set (snd (run_validate w u b)) \<subseteq> {Spawn u [[Lit ''-version'']], Kill u}"
  by (auto simp: run_validate_def Let_def)

lemma handleFile_first_effect:
  "\<exists>rest. snd (handleFile w c fileData fileName target preset resolution timeout) =
     WriteFile (inPath w fileName) fileData # rest"
  by (simp add: handleFile_def on_catch_def Let_def
      split: option.splits prod.splits outcome.splits sum.splits)

lemma handleFile_bitrate_used:
  assumes "writeFile_error w = None"
    and "getVideoDuration c (inPath w fileName) (probe_events w) = (Returns duration, tr1)"
  shows "js_less (videoBitrate target duration) (Fin 100) \<Longrightarrow>
           fst (handleFile w c fileData fileName target preset resolution timeout) =
             Some (Failure [Lit ''target bitrate too low ('', Num (videoBitrate target duration),
                            Lit ''k)''])"
    and "\<not> js_less (videoBitrate target duration) (Fin 100) \<Longrightarrow> pullBinary c Ffmpeg = Inr p \<Longrightarrow>
           Spawn p (encoder_args (inPath w fileName) (outPath w fileName)
                      (videoBitrate target duration) (Fin 128) preset resolution)
             \<in> set (snd (handleFile w c fileData fileName target preset resolution timeout))"
proof -
  show "js_less (videoBitrate target duration) (Fin 100) \<Longrightarrow>
           fst (handleFile w c fileData fileName target preset resolution timeout) =
             Some (Failure [Lit ''target bitrate too low ('', Num (videoBitrate target duration),
                            Lit ''k)''])"
    using assms by (simp add: handleFile_def Let_def)
next
  assume high: "\<not> js_less (videoBitrate target duration) (Fin 100)"
    and p: "pullBinary c Ffmpeg = Inr p"
  let ?spawn = "Spawn p (encoder_args (inPath w fileName) (outPath w fileName)
                      (videoBitrate target duration) (Fin 128) preset resolution)"
  obtain r ks where cv: "compressVideo c (inPath w fileName) (outPath w fileName)
      (videoBitrate target duration) (Fin 128) preset resolution timeout (encoder_events w) =
      (r, ?spawn # ks)"
    by (simp add: compressVideo_def p Let_def)
  show "?spawn \<in> set (snd (handleFile w c fileData fileName target preset resolution timeout))"
    using assms high
    by (cases r; cases "readFile_result w")
       (simp_all add: handleFile_def Let_def cv on_catch_def)
qed

subsection \<open>Arithmetic and parsing at concrete numbers\<close>

lemmas fl_eval = fl_def up.simps down.simps rne_def scale2_def Let_def

lemmas parse_eval = parseFloat_def sign_split_def is_digit_def decimal_def digit_val_def
  exponent_def scale10_def trim_def is_space_def

lemma tgBits_examples:
  "tgBits (Fin 9) = Fin 75497472"
  "tgBits (Fin 1) = Fin 8388608"
  by (simp_all add: tgBits_def fl_eval)

lemma videoBitrate_examples:
  "videoBitrate (Fin 9) (Fin 120) = Fin 629"
  "videoBitrate (Fin 9) (Fin (241 / 2)) = Fin 626"
  "videoBitrate (Fin 1) (Fin 3600) = Fin 2"
  "videoBitrate (Fin 9) PInf = Fin 0"
  "videoBitrate (Fin 9) (Fin (1152921504606847 / 17592186044416)) = Fin 1152"
  by (simp_all add: videoBitrate_def tgBits_examples fl_eval)

lemma parse_examples:
  "parseFloat (trim ''120.500000'') = Fin (241 / 2)"
  "parseFloat (trim ''3600.0'') = Fin 3600"
  "parseFloat (trim ''120'') = Fin 120"
  "parseFloat (trim ''65.536'') = Fin (1152921504606847 / 17592186044416)"
  "parseFloat (trim ''Infinity'') = PInf"
  by (simp_all add: parse_eval fl_eval)

lemma example_pull:
  "pullBinary example_cache Ffmpeg = Inr ''/usr/bin/ffmpeg''"
  "pullBinary example_cache Ffprobe = Inr ''/usr/bin/ffprobe''"
  by (simp_all add: pullBinary_def cached_def example_cache_def)

lemma probe_single:
  "await (p_log (probe_run [Stdout s, Close (Some 0)])) =
     (if isNaN (parseFloat (trim s)) \<or> js_le (parseFloat (trim s)) (Fin 0)
      then Throws (JsError [Lit ''ffprobe invalid data''])
      else Returns (parseFloat (trim s)))"
  by (simp add: probe_run_def Let_def)

lemma example_probe:
  "getVideoDuration example_cache inP [Stdout s, Close (Some 0)] =
     (if isNaN (parseFloat (trim s)) \<or> js_le (parseFloat (trim s)) (Fin 0)
      then Throws (JsError [Lit ''ffprobe invalid data''])
      else Returns (parseFloat (trim s)),
      [Spawn ''/usr/bin/ffprobe'' (probe_args inP)])"
  by (simp add: getVideoDuration_def example_pull probe_single)

lemma example_paths:
  "inPath (example_nworld\<lparr>probe_events := evs\<rparr>) ''clip.mp4'' = ''/tmp/ac_in_1700000000000.mp4''"
  "outPath (example_nworld\<lparr>probe_events := evs\<rparr>) ''clip.mp4'' = ''/tmp/ac_out_1700000000000.mp4''"
  "inPath example_nworld name = ''/tmp/ac_in_1700000000000'' @ fileExt example_nworld name"
  "outPath example_nworld name = ''/tmp/ac_out_1700000000000'' @ fileExt example_nworld name"
  by (simp_all add: inPath_def outPath_def fileExt_def example_nworld_def posix_join_def
      single_dot_ext_def show_nat.simps digit_char_def)

subsection \<open>The claims\<close>

text \<open>
  Claim C1, as stated, fails: the two divisions of line 58 are binary64 divisions, each
  rounded to nearest, and the floor is taken of the rounded result. With a target of 9 MB
  and a probe that prints \<open>65.536\<close>, the probed duration is the binary64 number next to
  65.536, a little above it; the exact quotient is a little below 1152 and its floor is
  1151, but the first division rounds to 1152000 and \<open>handleFile\<close> spawns the encoder with
  a bitrate of 1152.
\<close>

theorem rounded_division_counterexample:
  "fst (getVideoDuration example_cache ''/tmp/ac_in_1700000000000.mp4''
          [Stdout ''65.536'', Close (Some 0)]) =
     Returns (Fin (1152921504606847 / 17592186044416))
   \<and> Spawn ''/usr/bin/ffmpeg''
        (encoder_args ''/tmp/ac_in_1700000000000.mp4'' ''/tmp/ac_out_1700000000000.mp4''
           (Fin 1152) (Fin 128) ''medium'' ''original'')
      \<in> set (snd (handleFile (example_nworld\<lparr>probe_events := [Stdout ''65.536'', Close (Some 0)]\<rparr>)
                     example_cache [1, 2, 3] ''clip.mp4'' (Fin 9) ''medium'' ''original'' (Fin 10000)))
   \<and> \<lfloor>(9 * (1024 * 1024)) * 8 / (1152921504606847 / 17592186044416) / 1000 :: real\<rfloor> = 1151"
proof -
  let ?w = "example_nworld\<lparr>probe_events := [Stdout ''65.536'', Close (Some 0)]\<rparr>"
  have probe: "getVideoDuration example_cache inP [Stdout ''65.536'', Close (Some 0)] =
      (Returns (Fin (1152921504606847 / 17592186044416)),
       [Spawn ''/usr/bin/ffprobe'' (probe_args inP)])" for inP
    by (simp add: example_probe parse_examples)
  have w: "writeFile_error ?w = None"
    by (simp add: example_nworld_def)
  have d: "getVideoDuration example_cache (inPath ?w ''clip.mp4'') (probe_events ?w) =
      (Returns (Fin (1152921504606847 / 17592186044416)),
       [Spawn ''/usr/bin/ffprobe'' (probe_args (inPath ?w ''clip.mp4''))])"
    by (simp add: probe)
  have high: "\<not> js_less (videoBitrate (Fin 9) (Fin (1152921504606847 / 17592186044416))) (Fin 100)"
    by (simp add: videoBitrate_examples)
  have p: "pullBinary example_cache Ffmpeg = Inr ''/usr/bin/ffmpeg''"
    by (simp add: pullBinary_def cached_def example_cache_def)
  have spawn: "Spawn ''/usr/bin/ffmpeg''
        (encoder_args ''/tmp/ac_in_1700000000000.mp4'' ''/tmp/ac_out_1700000000000.mp4''
           (Fin 1152) (Fin 128) ''medium'' ''original'')
      \<in> set (snd (handleFile ?w example_cache [1, 2, 3] ''clip.mp4'' (Fin 9) ''medium''
                     ''original'' (Fin 10000)))"
    using handleFile_bitrate_used(2) [OF w d high p, where fileData = "[1, 2, 3]"
        and preset = "''medium''" and resolution = "''original''" and timeout = "Fin 10000"]
    by (simp add: videoBitrate_examples example_paths)
  have exact: "\<lfloor>(9 * (1024 * 1024)) * 8 / (1152921504606847 / 17592186044416) / 1000 :: real\<rfloor> = 1151"
    by simp
  from probe spawn exact show ?thesis by simp
qed

text \<open>
  Claim C1, amended. For every request whose input was written and whose probe gave a
  duration, the video bitrate of \<open>handleFile\<close> is \<open>Math.floor\<close> of
  \<open>target * 8 * 1024 * 1024 / duration / 1000\<close> evaluated in binary64 arithmetic, every
  product and quotient rounded to nearest: it is the number in the bitrate-too-low message
  when it is below 100, and otherwise the bitrate of the encoder that is spawned. With
  9 MB and 120 s it is 629.
\<close>

theorem handleFile_bitrate:
  assumes "writeFile_error w = None"
    and "getVideoDuration c (inPath w fileName) (probe_events w) = (Returns duration, tr1)"
  shows "(let tgBits = js_times (js_times (js_times target (Fin 8)) (Fin 1024)) (Fin 1024);
              vb = js_floor (js_divide (js_divide tgBits duration) (Fin 1000))
          in if js_less vb (Fin 100) then
               fst (handleFile w c fileData fileName target preset resolution timeout) =
                 Some (Failure [Lit ''target bitrate too low ('', Num vb, Lit ''k)''])
             else
               (pullBinary c Ffmpeg = Inr p \<longrightarrow>
                  Spawn p (encoder_args (inPath w fileName) (outPath w fileName) vb (Fin 128)
                             preset resolution)
                    \<in> set (snd (handleFile w c fileData fileName target preset resolution timeout))))
     \<and> js_floor (js_divide (js_divide
           (js_times (js_times (js_times (Fin 9) (Fin 8)) (Fin 1024)) (Fin 1024)) (Fin 120))
           (Fin 1000)) = Fin 629"
proof -
  have vb: "js_floor (js_divide (js_divide
              (js_times (js_times (js_times x (Fin 8)) (Fin 1024)) (Fin 1024)) y) (Fin 1000)) =
            videoBitrate x y" for x y
    by (simp add: videoBitrate_def tgBits_def)
  show ?thesis
    unfolding Let_def vb
    using handleFile_bitrate_used(1) [OF assms, where target = target and fileData = fileData
        and preset = preset and resolution = resolution and timeout = timeout]
      handleFile_bitrate_used(2) [OF assms, where target = target and fileData = fileData
        and preset = preset and resolution = resolution and timeout = timeout and p = p]
    by (simp add: videoBitrate_examples)
qed

theorem handleFile_bitrate_witness:
  "writeFile_error (example_nworld\<lparr>probe_events := [Stdout ''120'', Close (Some 0)]\<rparr>) = None
   \<and> getVideoDuration example_cache ''/tmp/ac_in_1700000000000.mp4'' [Stdout ''120'', Close (Some 0)] =
       (Returns (Fin 120), [Spawn ''/usr/bin/ffprobe'' (probe_args ''/tmp/ac_in_1700000000000.mp4'')])
   \<and> pullBinary example_cache Ffmpeg = Inr ''/usr/bin/ffmpeg''
   \<and> Spawn ''/usr/bin/ffmpeg''
        (encoder_args ''/tmp/ac_in_1700000000000.mp4'' ''/tmp/ac_out_1700000000000.mp4''
           (Fin 629) (Fin 128) ''medium'' ''original'')
      \<in> set (snd (handleFile (example_nworld\<lparr>probe_events := [Stdout ''120'', Close (Some 0)]\<rparr>)
                     example_cache [1, 2, 3] ''clip.mp4'' (Fin 9) ''medium'' ''original'' (Fin 10000)))"
proof -
  let ?w = "example_nworld\<lparr>probe_events := [Stdout ''120'', Close (Some 0)]\<rparr>"
  have probe: "getVideoDuration example_cache inP [Stdout ''120'', Close (Some 0)] =
      (Returns (Fin 120), [Spawn ''/usr/bin/ffprobe'' (probe_args inP)])" for inP
    by (simp add: example_probe parse_examples)
  have w: "writeFile_error ?w = None"
    by (simp add: example_nworld_def)
  have d: "getVideoDuration example_cache (inPath ?w ''clip.mp4'') (probe_events ?w) =
      (Returns (Fin 120), [Spawn ''/usr/bin/ffprobe'' (probe_args (inPath ?w ''clip.mp4''))])"
    by (simp add: probe)
  have p: "pullBinary example_cache Ffmpeg = Inr ''/usr/bin/ffmpeg''"
    by (simp add: pullBinary_def cached_def example_cache_def)
  from handleFile_bitrate [OF w d, where target = "Fin 9" and p = "''/usr/bin/ffmpeg''"
      and fileData = "[1, 2, 3]" and preset = "''medium''" and resolution = "''original''"
      and timeout = "Fin 10000"] p
  have "Spawn ''/usr/bin/ffmpeg''
        (encoder_args ''/tmp/ac_in_1700000000000.mp4'' ''/tmp/ac_out_1700000000000.mp4''
           (Fin 629) (Fin 128) ''medium'' ''original'')
      \<in> set (snd (handleFile ?w example_cache [1, 2, 3] ''clip.mp4'' (Fin 9) ''medium''
                     ''original'' (Fin 10000)))"
    by (simp add: fl_eval example_paths)
  with w probe p show ?thesis by simp
qed

text \<open>
  Claim C2. When the encoder has neither closed nor failed before the deadline, the timer
  kills it and rejects with the timeout error, and that is what the call returns: a later
  \<open>close\<close> or \<open>error\<close> (the events after the deadline, whatever they are) still calls
  \<open>reject\<close>, but after the first settling, so the outcome of \<open>handleFile\<close> is the timeout
  failure and nothing else.
\<close>

theorem timeout_takes_precedence:
  assumes "list_all is_data (fst (encoder_events w))"
    and "pullBinary c Ffmpeg = Inr binPath"
    and "writeFile_error w = None"
    and "getVideoDuration c (inPath w fileName) (probe_events w) = (Returns duration, tr1)"
    and "\<not> js_less (videoBitrate target duration) (Fin 100)"
  shows "(\<exists>l. c_log (encoder_run timeout (fst (encoder_events w)) (snd (encoder_events w))) =
               KillChild
               # Reject (JsError [Lit ''ffmpeg exceeded alloted time of '',
                                  Num (js_divide timeout (Fin 1000))])
               # l)
     \<and> handleFile w c fileData fileName target preset resolution timeout =
         (Some (Failure [Lit ''ffmpeg exceeded alloted time of '', Num (js_divide timeout (Fin 1000))]),
          [WriteFile (inPath w fileName) fileData] @ tr1 @
          [Spawn binPath (encoder_args (inPath w fileName) (outPath w fileName)
                            (videoBitrate target duration) (Fin 128) preset resolution),
           Kill binPath] @
          cleanup w [inPath w fileName, outPath w fileName])"
proof -
  have cv: "compressVideo c (inPath w fileName) (outPath w fileName) (videoBitrate target duration)
              (Fin 128) preset resolution timeout (encoder_events w) =
            (Throws (JsError [Lit ''ffmpeg exceeded alloted time of '',
                              Num (js_divide timeout (Fin 1000))]),
             [Spawn binPath (encoder_args (inPath w fileName) (outPath w fileName)
                            (videoBitrate target duration) (Fin 128) preset resolution), Kill binPath])"
    using compressVideo_timeout [OF assms(1,2)] .
  have msg: "catch_message (JsError [Lit ''ffmpeg exceeded alloted time of '',
                                     Num (js_divide timeout (Fin 1000))]) =
             [Lit ''ffmpeg exceeded alloted time of '', Num (js_divide timeout (Fin 1000))]"
    by (simp add: catch_message_def blank_def)
  have hf: "handleFile w c fileData fileName target preset resolution timeout =
         (Some (Failure [Lit ''ffmpeg exceeded alloted time of '', Num (js_divide timeout (Fin 1000))]),
          [WriteFile (inPath w fileName) fileData] @ tr1 @
          [Spawn binPath (encoder_args (inPath w fileName) (outPath w fileName)
                            (videoBitrate target duration) (Fin 128) preset resolution),
           Kill binPath] @
          cleanup w [inPath w fileName, outPath w fileName])"
    using assms(3,4,5) by (simp add: handleFile_def Let_def cv on_catch_def msg)
  from encoder_run_timeout [OF assms(1)] hf show ?thesis by blast
qed

theorem timeout_takes_precedence_witness:
  "list_all is_data (fst (encoder_events example_nworld))
   \<and> pullBinary example_cache Ffmpeg = Inr ''/usr/bin/ffmpeg''
   \<and> writeFile_error example_nworld = None
   \<and> getVideoDuration example_cache (inPath example_nworld ''clip.mp4'') (probe_events example_nworld) =
       (Returns (Fin (241 / 2)),
        [Spawn ''/usr/bin/ffprobe'' (probe_args (inPath example_nworld ''clip.mp4''))])
   \<and> \<not> js_less (videoBitrate (Fin 9) (Fin (241 / 2))) (Fin 100)
   \<and> fst (handleFile example_nworld example_cache [1, 2, 3] ''clip.mp4'' (Fin 9) ''medium''
             ''original'' (Fin 10000)) =
       Some (Failure [Lit ''ffmpeg exceeded alloted time of '', Num (Fin 10)])"
proof -
  have h1: "list_all is_data (fst (encoder_events example_nworld))"
    by (simp add: example_nworld_def)
  have h2: "pullBinary example_cache Ffmpeg = Inr ''/usr/bin/ffmpeg''"
    by (simp add: pullBinary_def cached_def example_cache_def)
  have h3: "writeFile_error example_nworld = None"
    by (simp add: example_nworld_def)
  have h4: "getVideoDuration example_cache (inPath example_nworld ''clip.mp4'')
              (probe_events example_nworld) =
            (Returns (Fin (241 / 2)),
             [Spawn ''/usr/bin/ffprobe'' (probe_args (inPath example_nworld ''clip.mp4''))])"
    by (simp add: example_nworld_def example_probe parse_examples)
  have h5: "\<not> js_less (videoBitrate (Fin 9) (Fin (241 / 2))) (Fin 100)"
    by (simp add: videoBitrate_examples)
  from timeout_takes_precedence [OF h1 h2 h3 h4 h5, where fileData = "[1, 2, 3]" and preset = "''medium''"
      and resolution = "''original''" and timeout = "Fin 10000"]
  have "fst (handleFile example_nworld example_cache [1, 2, 3] ''clip.mp4'' (Fin 9) ''medium''
             ''original'' (Fin 10000)) =
       Some (Failure [Lit ''ffmpeg exceeded alloted time of '', Num (Fin 10)])"
    by (simp add: fl_eval)
  with h1 h2 h3 h4 h5 show ?thesis by blast
qed

text \<open>
  Claim C3. Whenever \<open>handleFile\<close> returns, the last things it did were the deletions:
  of the temporary input and the temporary output, or, on the path where the bitrate is
  too low, of the temporary input alone, after a run in which only the probe was spawned
  and no output was ever written. What it returns is the same whatever \<open>unlink\<close> answers.
\<close>

theorem cleanup_on_every_exit:
  assumes "handleFile w c fileData fileName target preset resolution timeout = (Some r, tr)"
  shows "((\<exists>pre. tr = pre @ cleanup w [inPath w fileName, outPath w fileName])
          \<or> (\<exists>pb. tr = [WriteFile (inPath w fileName) fileData, Spawn pb (probe_args (inPath w fileName))]
                       @ cleanup w [inPath w fileName]))
       \<and> fst (handleFile (w\<lparr>unlink_ok := f\<rparr>) c fileData fileName target preset resolution timeout) = Some r"
proof -
  have "fst (handleFile (w\<lparr>unlink_ok := f\<rparr>) c fileData fileName target preset resolution timeout) = Some r"
    using assms by (simp add: handleFile_unlink_irrelevant)
  moreover have "(\<exists>pre. tr = pre @ cleanup w [inPath w fileName, outPath w fileName])
          \<or> (\<exists>pb. tr = [WriteFile (inPath w fileName) fileData, Spawn pb (probe_args (inPath w fileName))]
                       @ cleanup w [inPath w fileName])"
    using assms
    by (auto simp: handleFile_def on_catch_def Let_def
        split: option.splits prod.splits outcome.splits sum.splits if_splits
        dest: getVideoDuration_returns_trace)
  ultimately show ?thesis by blast
qed

theorem cleanup_on_every_exit_witness:
  "fst (handleFile (example_nworld\<lparr>encoder_events := ([Stderr ''frame=1'', Close (Some 0)], [])\<rparr>)
          example_cache [1, 2, 3] ''clip.mp4'' (Fin 9) ''medium'' ''original'' (Fin 10000)) =
     Some (Success [1, 2, 3])
   \<and> fst (handleFile (example_nworld\<lparr>encoder_events := ([Stderr ''frame=1'', Close (Some 0)], []),
                                     unlink_ok := (\<lambda>p. False)\<rparr>)
            example_cache [1, 2, 3] ''clip.mp4'' (Fin 9) ''medium'' ''original'' (Fin 10000)) =
       Some (Success [1, 2, 3])
   \<and> handleFile (example_nworld\<lparr>writeFile_error := Some (JsError [Lit ''ENOSPC''])\<rparr>) example_cache
       [1, 2, 3] ''clip.mp4'' (Fin 9) ''medium'' ''original'' (Fin 10000) =
       (Some (Failure [Lit ''ENOSPC'']),
        [WriteFile ''/tmp/ac_in_1700000000000.mp4'' [1, 2, 3],
         Unlink ''/tmp/ac_in_1700000000000.mp4'' True,
         Unlink ''/tmp/ac_out_1700000000000.mp4'' True])
   \<and> fst (handleFile (example_nworld\<lparr>writeFile_error := Some (JsError [Lit ''ENOSPC'']),
                                     unlink_ok := (\<lambda>p. False)\<rparr>) example_cache
            [1, 2, 3] ''clip.mp4'' (Fin 9) ''medium'' ''original'' (Fin 10000)) =
       Some (Failure [Lit ''ENOSPC''])"
proof -
  let ?good = "example_nworld\<lparr>encoder_events := ([Stderr ''frame=1'', Close (Some 0)], [])\<rparr>"
  have ok: "fst (handleFile ?good example_cache [1, 2, 3] ''clip.mp4'' (Fin 9) ''medium''
                  ''original'' (Fin 10000)) = Some (Success [1, 2, 3])"
    by (simp add: handleFile_def compressVideo_def encoder_run_def c_timeout_def example_pull
        example_nworld_def example_probe parse_examples videoBitrate_examples Let_def)
  then have good: "handleFile ?good example_cache [1, 2, 3] ''clip.mp4'' (Fin 9) ''medium''
                  ''original'' (Fin 10000) =
      (Some (Success [1, 2, 3]),
       snd (handleFile ?good example_cache [1, 2, 3] ''clip.mp4'' (Fin 9) ''medium''
                  ''original'' (Fin 10000)))"
    by (simp add: prod_eq_iff)
  have bad: "handleFile (example_nworld\<lparr>writeFile_error := Some (JsError [Lit ''ENOSPC''])\<rparr>)
       example_cache [1, 2, 3] ''clip.mp4'' (Fin 9) ''medium'' ''original'' (Fin 10000) =
     (Some (Failure [Lit ''ENOSPC'']),
      [WriteFile ''/tmp/ac_in_1700000000000.mp4'' [1, 2, 3],
       Unlink ''/tmp/ac_in_1700000000000.mp4'' True,
       Unlink ''/tmp/ac_out_1700000000000.mp4'' True])"
    by (simp add: handleFile_def on_catch_def catch_message_def blank_def cleanup_def
        inPath_def outPath_def fileExt_def posix_join_def example_nworld_def single_dot_ext_def
        show_nat.simps digit_char_def)
  from cleanup_on_every_exit [OF good, of "\<lambda>p. False"] cleanup_on_every_exit [OF bad, of "\<lambda>p. False"]
    ok bad
  show ?thesis by simp
qed

text \<open>
  Claim C4. When the probe has given a duration and the bitrate computed from it is below
  100, \<open>handleFile\<close> returns the failure whose message carries that bitrate, and all it
  has done is write the input, spawn the probe and delete the input: the encoder is not
  spawned.
\<close>

theorem bitrate_too_low:
  assumes "writeFile_error w = None"
    and "pullBinary c Ffprobe = Inr pb"
    and "await (p_log (probe_run (probe_events w))) = Returns duration"
    and "js_less (videoBitrate target duration) (Fin 100)"
  shows "handleFile w c fileData fileName target preset resolution timeout =
     (Some (Failure [Lit ''target bitrate too low ('', Num (videoBitrate target duration), Lit ''k)'']),
      [WriteFile (inPath w fileName) fileData,
       Spawn pb (probe_args (inPath w fileName)),
       Unlink (inPath w fileName) (unlink_ok w (inPath w fileName))])"
  using assms by (simp add: handleFile_def getVideoDuration_def cleanup_def Let_def)

theorem bitrate_too_low_witness:
  "writeFile_error (example_nworld\<lparr>probe_events := [Stdout ''3600.0'', Close (Some 0)]\<rparr>) = None
   \<and> pullBinary example_cache Ffprobe = Inr ''/usr/bin/ffprobe''
   \<and> await (p_log (probe_run [Stdout ''3600.0'', Close (Some 0)])) = Returns (Fin 3600)
   \<and> js_less (videoBitrate (Fin 1) (Fin 3600)) (Fin 100)
   \<and> fst (handleFile (example_nworld\<lparr>probe_events := [Stdout ''3600.0'', Close (Some 0)]\<rparr>)
            example_cache [1, 2, 3] ''clip.mp4'' (Fin 1) ''medium'' ''original'' (Fin 10000)) =
       Some (Failure [Lit ''target bitrate too low ('', Num (Fin 2), Lit ''k)''])"
proof -
  let ?w = "example_nworld\<lparr>probe_events := [Stdout ''3600.0'', Close (Some 0)]\<rparr>"
  have h1: "writeFile_error ?w = None"
    by (simp add: example_nworld_def)
  have h2: "pullBinary example_cache Ffprobe = Inr ''/usr/bin/ffprobe''"
    by (simp add: pullBinary_def cached_def example_cache_def)
  have h3: "await (p_log (probe_run [Stdout ''3600.0'', Close (Some 0)])) = Returns (Fin 3600)"
    by (simp add: probe_single parse_examples)
  have h3': "await (p_log (probe_run (probe_events ?w))) = Returns (Fin 3600)"
    using h3 by simp
  have vb: "videoBitrate (Fin 1) (Fin 3600) = Fin 2"
    by (simp add: videoBitrate_examples)
  have h4: "js_less (videoBitrate (Fin 1) (Fin 3600)) (Fin 100)"
    by (simp add: vb)
  from bitrate_too_low [OF h1 h2 h3' h4, where fileData = "[1, 2, 3]" and fileName = "''clip.mp4''"
      and preset = "''medium''" and resolution = "''original''" and timeout = "Fin 10000"]
  have "fst (handleFile ?w example_cache [1, 2, 3] ''clip.mp4'' (Fin 1) ''medium'' ''original'' (Fin 10000)) =
       Some (Failure [Lit ''target bitrate too low ('', Num (Fin 2), Lit ''k)''])"
    by (simp add: vb)
  with h1 h2 h3 h4 show ?thesis by blast
qed




text \<open>
  Claim C6. With no usable entry in the cache and a user path that is not the empty
  string: a path that \<open>path.isAbsolute\<close> refuses fails with the must-be-absolute error
  before anything is touched, on every platform and whether or not the path exists; an
  absolute path that does not exist fails with the not-found error after the one
  existence check; a path that exists and whose validation fails fails with the error of
  the validation. The cache is unchanged in all three, and the only effects of such a call
  concern the user path itself: no candidate path is looked at.
\<close>

theorem user_path_failures:
  assumes "cached c b = None" and "u \<noteq> []"
  shows "(\<not> isAbsolute w u \<longrightarrow>
           resolveBinary w c (Some u) b =
             (Throws (JsError [Lit (bin_name b), Lit '' path must be absolute'']), c, []))
     \<and> (isAbsolute w u \<and> \<not> fileExists w u \<longrightarrow>
           resolveBinary w c (Some u) b =
             (Throws (JsError [Lit (bin_name b), Lit '' not found at '', Lit u]), c, [Access u]))
     \<and> (isAbsolute w u \<and> fileExists w u \<and> fst (run_validate w u b) = Throws e \<longrightarrow>
           resolveBinary w c (Some u) b = (Throws e, c, Access u # snd (run_validate w u b)))
     \<and> set (snd (snd (resolveBinary w c (Some u) b)))
          \<subseteq> {Access u, Spawn u [[Lit ''-version'']], Kill u}"
proof -
  have rb: "resolveBinary w c (Some u) b =
            (let (r, tr) = resolve_user w b u in (r, resolve_commit c b r, tr))"
    using assms by (simp add: resolveBinary_def resolve_search_def)
  have a: "\<not> isAbsolute w u \<Longrightarrow>
           resolveBinary w c (Some u) b =
             (Throws (JsError [Lit (bin_name b), Lit '' path must be absolute'']), c, [])"
    by (simp add: rb resolve_user_def resolve_commit_def)
  have b: "isAbsolute w u \<Longrightarrow> \<not> fileExists w u \<Longrightarrow>
           resolveBinary w c (Some u) b =
             (Throws (JsError [Lit (bin_name b), Lit '' not found at '', Lit u]), c, [Access u])"
    by (simp add: rb resolve_user_def resolve_commit_def)
  have c: "isAbsolute w u \<Longrightarrow> fileExists w u \<Longrightarrow> fst (run_validate w u b) = Throws e \<Longrightarrow>
           resolveBinary w c (Some u) b = (Throws e, c, Access u # snd (run_validate w u b))"
    by (cases "run_validate w u b") (simp add: rb resolve_user_def resolve_commit_def)
  have d: "set (snd (snd (resolveBinary w c (Some u) b)))
          \<subseteq> {Access u, Spawn u [[Lit ''-version'']], Kill u}"
    using run_validate_effects [of w u b]
    by (auto simp: rb resolve_user_def split: prod.splits outcome.splits if_splits)
  from a b c d show ?thesis by blast
qed

theorem user_path_failures_witness:
  "cached Map.empty Ffmpeg = None \<and> ''bin/ffmpeg'' \<noteq> [] \<and> ''/opt/c/ffmpeg'' \<noteq> []
   \<and> \<not> isAbsolute example_rworld ''bin/ffmpeg''
   \<and> resolveBinary example_rworld Map.empty (Some ''bin/ffmpeg'') Ffmpeg =
       (Throws (JsError [Lit ''ffmpeg'', Lit '' path must be absolute'']), Map.empty, [])
   \<and> isAbsolute example_rworld ''/opt/c/ffmpeg'' \<and> \<not> fileExists example_rworld ''/opt/c/ffmpeg''
   \<and> resolveBinary example_rworld Map.empty (Some ''/opt/c/ffmpeg'') Ffmpeg =
       (Throws (JsError [Lit ''ffmpeg'', Lit '' not found at '', Lit ''/opt/c/ffmpeg'']), Map.empty,
        [Access ''/opt/c/ffmpeg''])"
proof -
  have h1: "cached Map.empty Ffmpeg = None"
    by (simp add: cached_def)
  have h2: "''bin/ffmpeg'' \<noteq> []" "''/opt/c/ffmpeg'' \<noteq> []"
    by simp_all
  have rel: "\<not> isAbsolute example_rworld ''bin/ffmpeg''"
    by (simp add: example_rworld_def posix_isAbsolute_def)
  have abs: "isAbsolute example_rworld ''/opt/c/ffmpeg''" "\<not> fileExists example_rworld ''/opt/c/ffmpeg''"
    by (simp_all add: example_rworld_def posix_isAbsolute_def)
  from user_path_failures [OF h1 h2(1), of example_rworld] rel
  have r1: "resolveBinary example_rworld Map.empty (Some ''bin/ffmpeg'') Ffmpeg =
       (Throws (JsError [Lit ''ffmpeg'', Lit '' path must be absolute'']), Map.empty, [])"
    by simp
  from user_path_failures [OF h1 h2(2), of example_rworld] abs
  have r2: "resolveBinary example_rworld Map.empty (Some ''/opt/c/ffmpeg'') Ffmpeg =
       (Throws (JsError [Lit ''ffmpeg'', Lit '' not found at '', Lit ''/opt/c/ffmpeg'']), Map.empty,
        [Access ''/opt/c/ffmpeg''])"
    by simp
  from h1 h2 rel abs r1 r2 show ?thesis by blast
qed

text \<open>
  Claim C7. If the child has neither closed nor failed before the deadline, the timer
  kills it and rejects with the timed-out error, and this is the only call of \<open>resolve\<close>
  or \<open>reject\<close> in the whole run, whatever arrives afterwards: \<open>timeExceeded\<close> silences the
  later handlers. If the child closes before the deadline, after writing its output,
  validation succeeds exactly when the exit code is zero and the output, in lower case,
  contains the name of the tool, and fails with the not-a-valid-binary error otherwise;
  the child is not killed.
\<close>

theorem validateBinary_outcomes:
  assumes "list_all is_data pre"
  shows "v_log (validateBinary p (bin_name b) t pre after) =
           [KillChild, Reject (JsError [Lit p, Lit '' validation timed out after '', Num t, Lit ''ms''])]
       \<and> await (v_log (validateBinary p (bin_name b) t (pre @ Close code # rest) after)) =
           (if code = Some 0 \<and> includes_str (toLowerCase (stdout_text pre)) (toLowerCase (bin_name b))
            then Returns ()
            else Throws (JsError [Lit p, Lit '' is not a valid '', Lit (bin_name b), Lit '' binary'']))
       \<and> \<not> killed_first (v_log (validateBinary p (bin_name b) t (pre @ Close code # rest) after))"
proof -
  let ?n = "bin_name b"
  let ?init = "\<lparr>v_out = [], v_timeExceeded = False, v_cleared = False, v_log = []\<rparr>"
  let ?h = "v_handle p ?n"
  have pre: "foldl ?h ?init pre = ?init\<lparr>v_out := stdout_text pre\<rparr>"
    by (simp add: v_data_run [OF assms])
  have a: "v_log (validateBinary p ?n t pre after) =
           [KillChild, Reject (JsError [Lit p, Lit '' validation timed out after '', Num t, Lit ''ms''])]"
    using v_after_timeout [of "v_timeout p t (?init\<lparr>v_out := stdout_text pre\<rparr>)" p ?n after]
    by (simp add: validateBinary_def pre v_timeout_def)
  let ?x = "if code = Some 0 \<and> includes_str (toLowerCase (stdout_text pre)) ?n
            then Resolve () else Reject (JsError [Lit p, Lit '' is not a valid '', Lit ?n, Lit '' binary''])"
  let ?closed = "?h (?init\<lparr>v_out := stdout_text pre\<rparr>) (Close code)"
  have closed: "v_log ?closed = [?x]" "v_cleared ?closed"
    by auto
  have run: "foldl ?h ?init (pre @ Close code # rest) = foldl ?h ?closed rest"
    by (simp add: pre)
  obtain l where l: "v_log (foldl ?h ?closed rest) = [?x] @ l"
    using v_log_grows [of p ?n ?closed rest] closed(1) by metis
  have cl: "v_cleared (foldl ?h ?closed rest)"
    using v_cleared_stays [OF closed(2)] .
  obtain k where k: "v_log (foldl ?h (foldl ?h ?closed rest) after) = ([?x] @ l) @ k"
    using v_log_grows [of p ?n "foldl ?h ?closed rest" after] l by metis
  have whole: "v_log (validateBinary p ?n t (pre @ Close code # rest) after) = [?x] @ (l @ k)"
    unfolding validateBinary_def Let_def run using cl k by simp
  have settled: "await [?x] \<noteq> Pending" by simp
  have b: "await (v_log (validateBinary p ?n t (pre @ Close code # rest) after)) = await [?x]"
    unfolding whole using await_settled_append [OF settled] .
  have c: "killed_first (v_log (validateBinary p ?n t (pre @ Close code # rest) after)) = killed_first [?x]"
    unfolding whole using killed_first_append [OF settled] .
  from a b c show ?thesis by (simp add: lower_bin_name)
qed

theorem validateBinary_outcomes_witness:
  "list_all is_data [Stdout ''FFmpeg version 6.1'']
   \<and> v_log (validateBinary ''/usr/bin/ffmpeg'' (bin_name Ffmpeg) (Fin 5000)
              [Stdout ''FFmpeg version 6.1''] [Close None]) =
       [KillChild,
        Reject (JsError [Lit ''/usr/bin/ffmpeg'', Lit '' validation timed out after '',
                         Num (Fin 5000), Lit ''ms''])]
   \<and> await (v_log (validateBinary ''/usr/bin/ffmpeg'' (bin_name Ffmpeg) (Fin 5000)
                     ([Stdout ''FFmpeg version 6.1''] @ [Close (Some 0)]) [])) = Returns ()"
proof -
  have h: "list_all is_data [Stdout ''FFmpeg version 6.1'']"
    by simp
  from validateBinary_outcomes [OF h, where p = "''/usr/bin/ffmpeg''" and b = Ffmpeg and t = "Fin 5000"
      and after = "[Close None]"]
  have "v_log (validateBinary ''/usr/bin/ffmpeg'' (bin_name Ffmpeg) (Fin 5000)
              [Stdout ''FFmpeg version 6.1''] [Close None]) =
       [KillChild,
        Reject (JsError [Lit ''/usr/bin/ffmpeg'', Lit '' validation timed out after '',
                         Num (Fin 5000), Lit ''ms''])]"
    by blast
  moreover
  from validateBinary_outcomes [OF h, where p = "''/usr/bin/ffmpeg''" and b = Ffmpeg and t = "Fin 5000"
      and after = "[]" and code = "Some 0" and rest = "[]"]
  have "await (v_log (validateBinary ''/usr/bin/ffmpeg'' (bin_name Ffmpeg) (Fin 5000)
                     ([Stdout ''FFmpeg version 6.1''] @ [Close (Some 0)]) [])) = Returns ()"
    by (simp add: stdout_text_def toLowerCase_def lower_char_def)
  ultimately show ?thesis using h by blast
qed

text \<open>
  Claim C8, as stated, fails for a probe output that parses to infinity: \<open>Infinity\<close> is
  neither NaN nor \<open><= 0\<close>, so the promise is resolved with it, the bitrate is computed (it
  is 0) and the call fails with the bitrate-too-low message and not with that of the
  probe.
\<close>

theorem infinite_duration_counterexample:
  "fst (handleFile (example_nworld\<lparr>probe_events := [Stdout ''Infinity'', Close (Some 0)]\<rparr>)
         example_cache [1, 2, 3] ''clip.mp4'' (Fin 9) ''medium'' ''original'' (Fin 10000)) =
     Some (Failure [Lit ''target bitrate too low ('', Num (Fin 0), Lit ''k)''])"
  by (simp add: handleFile_def example_nworld_def example_probe parse_examples
      videoBitrate_examples Let_def)

text \<open>
  Claim C8, amended. When the probe closes after writing its output: a non-zero exit code
  (or none) fails the call with the message that carries the code and the trimmed
  standard-error text; with exit code zero, an output that \<open>parseFloat\<close> reads as NaN, as
  a number that is zero or negative, or as minus infinity fails the call with the
  invalid-data message; and the duration goes on to the bitrate computation exactly when
  it is read as a positive number, which may be infinity.
\<close>

theorem probe_failures:
  assumes "writeFile_error w = None"
    and "pullBinary c Ffprobe = Inr pb"
    and "probe_events w = pre @ Close code # rest"
    and "list_all is_data pre"
  shows "(code \<noteq> Some 0 \<longrightarrow>
            fst (handleFile w c fileData fileName target preset resolution timeout) =
              Some (Failure [Lit ''ffprobe exited with '', code_piece code, Lit '', '',
                             Lit (trim (stderr_text pre))]))
     \<and> (code = Some 0 \<longrightarrow>
          (case parseFloat (trim (stdout_text pre)) of
             Fin r \<Rightarrow>
               if 0 < r then
                 fst (getVideoDuration c (inPath w fileName) (probe_events w)) = Returns (Fin r)
               else fst (handleFile w c fileData fileName target preset resolution timeout) =
                      Some (Failure [Lit ''ffprobe invalid data''])
           | PInf \<Rightarrow> fst (getVideoDuration c (inPath w fileName) (probe_events w)) = Returns PInf
           | NInf \<Rightarrow> fst (handleFile w c fileData fileName target preset resolution timeout) =
                      Some (Failure [Lit ''ffprobe invalid data''])
           | NaN \<Rightarrow> fst (handleFile w c fileData fileName target preset resolution timeout) =
                      Some (Failure [Lit ''ffprobe invalid data''])))"
proof -
  note run = probe_run_close [OF assms(4), of code rest, folded assms(3)]
  have m1: "catch_message (JsError [Lit ''ffprobe exited with '', code_piece code, Lit '', '',
                             Lit (trim (stderr_text pre))]) =
            [Lit ''ffprobe exited with '', code_piece code, Lit '', '', Lit (trim (stderr_text pre))]"
    by (simp add: catch_message_def blank_def)
  have m2: "catch_message (JsError [Lit ''ffprobe invalid data'']) = [Lit ''ffprobe invalid data'']"
    by (simp add: catch_message_def blank_def)
  have a: "code \<noteq> Some 0 \<Longrightarrow>
            fst (handleFile w c fileData fileName target preset resolution timeout) =
              Some (Failure [Lit ''ffprobe exited with '', code_piece code, Lit '', '',
                             Lit (trim (stderr_text pre))])"
    using handleFile_probe_throws [OF assms(1,2), of _ fileData fileName target preset resolution timeout]
      run by (simp add: m1)
  have bad: "code = Some 0 \<Longrightarrow> isNaN (parseFloat (trim (stdout_text pre)))
              \<or> js_le (parseFloat (trim (stdout_text pre))) (Fin 0) \<Longrightarrow>
            fst (handleFile w c fileData fileName target preset resolution timeout) =
              Some (Failure [Lit ''ffprobe invalid data''])"
    using handleFile_probe_throws [OF assms(1,2), of _ fileData fileName target preset resolution timeout]
      run by (simp add: m2)
  have good: "code = Some 0 \<Longrightarrow> \<not> (isNaN (parseFloat (trim (stdout_text pre)))
              \<or> js_le (parseFloat (trim (stdout_text pre))) (Fin 0)) \<Longrightarrow>
            fst (getVideoDuration c (inPath w fileName) (probe_events w)) =
              Returns (parseFloat (trim (stdout_text pre)))"
    using run by (simp add: getVideoDuration_def assms(2))
  show ?thesis
  proof (cases "parseFloat (trim (stdout_text pre))")
    case NaN
    with a bad show ?thesis by simp
  next
    case PInf
    with a good show ?thesis by simp
  next
    case NInf
    with a bad show ?thesis by simp
  next
    case (Fin r)
    with a bad good show ?thesis by (cases "0 < r") simp_all
  qed
qed

theorem probe_failures_witness:
  "writeFile_error (example_nworld\<lparr>probe_events := [Stderr ''moov atom not found ''] @ Close (Some 1) # []\<rparr>) = None
   \<and> pullBinary example_cache Ffprobe = Inr ''/usr/bin/ffprobe''
   \<and> list_all is_data [Stderr ''moov atom not found '']
   \<and> fst (handleFile (example_nworld\<lparr>probe_events := [Stderr ''moov atom not found ''] @ Close (Some 1) # []\<rparr>)
            example_cache [1, 2, 3] ''clip.mp4'' (Fin 9) ''medium'' ''original'' (Fin 10000)) =
       Some (Failure [Lit ''ffprobe exited with '', Num (Fin 1), Lit '', '', Lit ''moov atom not found''])"
proof -
  let ?w = "example_nworld\<lparr>probe_events := [Stderr ''moov atom not found ''] @ Close (Some 1) # []\<rparr>"
  have h1: "writeFile_error ?w = None"
    by (simp add: example_nworld_def)
  have h2: "pullBinary example_cache Ffprobe = Inr ''/usr/bin/ffprobe''"
    by (simp add: pullBinary_def cached_def example_cache_def)
  have h3: "probe_events ?w = [Stderr ''moov atom not found ''] @ Close (Some 1) # []"
    by simp
  have h4: "list_all is_data [Stderr ''moov atom not found '']"
    by simp
  from probe_failures [OF h1 h2 h3 h4, where fileData = "[1, 2, 3]" and fileName = "''clip.mp4''"
      and target = "Fin 9" and preset = "''medium''" and resolution = "''original''"
      and timeout = "Fin 10000"]
  have "fst (handleFile ?w example_cache [1, 2, 3] ''clip.mp4'' (Fin 9) ''medium'' ''original'' (Fin 10000)) =
       Some (Failure [Lit ''ffprobe exited with '', Num (Fin 1), Lit '', '', Lit ''moov atom not found''])"
    by (simp add: code_piece_def stderr_text_def trim_def is_space_def)
  with h1 h2 h4 show ?thesis by blast
qed

text \<open>
  Claim C9 fails on the code. The names of the temporary files are made per call by the
  reading of \<open>Date.now()\<close> alone, a count of milliseconds, and the caller starts one call
  for each file of a drop at once. Two calls, for \<open>a.mp4\<close> with the bytes \<open>[1]\<close> and for
  \<open>b.mp4\<close> with the bytes \<open>[2]\<close>, that read the same millisecond write their inputs to the
  same path and derive the same output path.
\<close>

theorem same_millisecond_collision:
  "take 1 (snd (handleFile example_nworld example_cache [1] ''a.mp4'' (Fin 9) ''medium''
                  ''original'' (Fin 10000))) =
     [WriteFile ''/tmp/ac_in_1700000000000.mp4'' [1]]
   \<and> take 1 (snd (handleFile example_nworld example_cache [2] ''b.mp4'' (Fin 9) ''medium''
                  ''original'' (Fin 10000))) =
     [WriteFile ''/tmp/ac_in_1700000000000.mp4'' [2]]
   \<and> outPath example_nworld ''a.mp4'' = ''/tmp/ac_out_1700000000000.mp4''
   \<and> outPath example_nworld ''b.mp4'' = ''/tmp/ac_out_1700000000000.mp4''"
proof -
  have ext: "fileExt example_nworld ''a.mp4'' = ''.mp4''" "fileExt example_nworld ''b.mp4'' = ''.mp4''"
    by (simp_all add: fileExt_def example_nworld_def single_dot_ext_def)
  obtain ra where "snd (handleFile example_nworld example_cache [1] ''a.mp4'' (Fin 9) ''medium''
                  ''original'' (Fin 10000)) = WriteFile (inPath example_nworld ''a.mp4'') [1] # ra"
    using handleFile_first_effect by blast
  moreover obtain rb where "snd (handleFile example_nworld example_cache [2] ''b.mp4'' (Fin 9)
                  ''medium'' ''original'' (Fin 10000)) =
                  WriteFile (inPath example_nworld ''b.mp4'') [2] # rb"
    using handleFile_first_effect by blast
  ultimately show ?thesis
    by (simp add: example_paths ext)
qed

text \<open>
  Claim C10. A call with the empty string as user path is the same call as one with no
  user path: the same outcome, the same cache afterwards, the same effects. On a cache
  miss it is the search through the candidate paths of the platform, and it never fails
  with the must-be-absolute error.
\<close>

theorem empty_user_path:
  "resolveBinary w c (Some []) b = resolveBinary w c None b
   \<and> (cached c b = None \<longrightarrow>
        resolveBinary w c (Some []) b =
          (let (r, tr) = resolve_candidates w b (candidatePaths (platform w) b)
           in (r, resolve_commit c b r, tr)))
   \<and> fst (resolveBinary w c (Some []) b) \<noteq>
        Throws (JsError [Lit (bin_name b), Lit '' path must be absolute''])"
proof -
  have a: "resolveBinary w c (Some []) b = resolveBinary w c None b"
    by (cases "cached c b") (simp_all add: resolveBinary_def resolve_search_def)
  have b: "cached c b = None \<Longrightarrow>
        resolveBinary w c (Some []) b =
          (let (r, tr) = resolve_candidates w b (candidatePaths (platform w) b)
           in (r, resolve_commit c b r, tr))"
    by (simp add: resolveBinary_def resolve_search_def)
  have c: "fst (resolveBinary w c (Some []) b) \<noteq>
        Throws (JsError [Lit (bin_name b), Lit '' path must be absolute''])"
  proof (cases "cached c b")
    case None
    show ?thesis
    proof
      assume "fst (resolveBinary w c (Some []) b) =
        Throws (JsError [Lit (bin_name b), Lit '' path must be absolute''])"
      with None have "fst (resolve_candidates w b (candidatePaths (platform w) b)) =
        Throws (JsError [Lit (bin_name b), Lit '' path must be absolute''])"
        by (simp add: resolveBinary_def resolve_search_def split: prod.splits)
      from resolve_candidates_throws [OF this] show False by simp
    qed
  next
    case (Some q)
    then show ?thesis by (simp add: resolveBinary_def)
  qed
  from a b c show ?thesis by blast
qed

theorem empty_user_path_witness:
  "cached Map.empty Ffmpeg = None
   \<and> \<not> isAbsolute example_rworld []
   \<and> resolveBinary example_rworld Map.empty (Some []) Ffmpeg =
       resolveBinary example_rworld Map.empty None Ffmpeg
   \<and> fst (resolveBinary example_rworld Map.empty (Some []) Ffmpeg) =
       Throws (JsError [Lit ''ffmpeg'',
                        Lit '' not found, either needs installation or define a custom path''])"
proof -
  have h: "cached Map.empty Ffmpeg = None"
    by (simp add: cached_def)
  have rel: "\<not> isAbsolute example_rworld []"
    by (simp add: example_rworld_def posix_isAbsolute_def)
  have search: "fst (resolve_candidates example_rworld Ffmpeg
                  (candidatePaths (platform example_rworld) Ffmpeg)) =
       Throws (JsError [Lit ''ffmpeg'',
                        Lit '' not found, either needs installation or define a custom path''])"
    by (simp add: example_rworld_def)
  from empty_user_path [of example_rworld Map.empty Ffmpeg] h
  have same: "resolveBinary example_rworld Map.empty (Some []) Ffmpeg =
       resolveBinary example_rworld Map.empty None Ffmpeg"
    and found: "resolveBinary example_rworld Map.empty (Some []) Ffmpeg =
          (let (r, tr) = resolve_candidates example_rworld Ffmpeg
                           (candidatePaths (platform example_rworld) Ffmpeg)
           in (r, resolve_commit Map.empty Ffmpeg r, tr))"
    by blast+
  have "fst (resolveBinary example_rworld Map.empty (Some []) Ffmpeg) =
       Throws (JsError [Lit ''ffmpeg'',
                        Lit '' not found, either needs installation or define a custom path''])"
    unfolding found using search by (simp add: case_prod_beta Let_def)
  with h rel same show ?thesis by blast
qed

end
